theory Spec2Isabelle
  imports Complex_Main "HOL-Library.Log_Nat"
begin

section \<open>The alpaca trading gateway: a shallow embedding of \<open>alpaca_mcp_server.py\<close>\<close>

text \<open>
  The module registers nine tools. Each one builds a client of the brokerage library
  from the credentials it was called with, makes at most one call on that client,
  renders the answer into text, and turns every \<open>Exception\<close> into an error string.
  Everything outside the module (the library's constructors, the remote service, the
  clock, the interpreter's parsing of floats) is a parameter of the model.
\<close>

subsection \<open>Python values\<close>

text \<open>
  What a call may raise. \<open>Exception msg\<close> is an instance of \<open>Exception\<close>, with \<open>msg\<close>
  what \<open>str(e)\<close> returns. \<open>BaseException name\<close> is an exception that is not an
  instance of \<open>Exception\<close>, such as \<open>KeyboardInterrupt\<close> or \<open>SystemExit\<close>: the handler
  \<open>except Exception\<close> of the tools does not catch it.
\<close>

datatype exn = Exception string | BaseException string

text \<open>
  A Python \<open>float\<close>: a finite value is given by the rational number the binary64 denotes;
  the negative zero, the two infinities and the not-a-number are values of their own.
\<close>

datatype pyfloat = Fin rat | NegZero | PosInf | NegInf | NaN

fun is_finite :: "pyfloat \<Rightarrow> bool" where
  "is_finite (Fin x) = True"
| "is_finite NegZero = True"
| "is_finite _ = False"

text \<open>A float that is strictly greater than zero.\<close>

fun positive :: "pyfloat \<Rightarrow> bool" where
  "positive (Fin x) = (0 < x)"
| "positive PosInf = True"
| "positive _ = False"

text \<open>Rounding to the nearest integer, ties to the even one.\<close>

definition round_half_even :: "rat \<Rightarrow> int" where
  "round_half_even q =
     (let f = \<lfloor>q\<rfloor>; r = q - of_int f
      in if r < 1 / 2 then f else if 1 / 2 < r then f + 1
         else if even f then f else f + 1)"

text \<open>\<open>ilog2 a\<close> is the \<open>k\<close> with \<open>2^k \<le> a < 2^(k+1)\<close>, for a positive \<open>a\<close>.\<close>

definition ilog2 :: "rat \<Rightarrow> int" where
  "ilog2 a =
     (let (n, d) = quotient_of a;
          k = int (floorlog 2 (nat n)) - int (floorlog 2 (nat d))
      in if 2 powi k \<le> a then k else k - 1)"

text \<open>
  The binary64 nearest to a rational (ties to even): 53 bits of mantissa, the smallest
  quantum \<open>2^-1074\<close>, and overflow to an infinity when the rounded value reaches
  \<open>2^1024\<close>, that is when its binary exponent \<open>ilog2 v\<close> is 1024 or more.
\<close>

definition to_double :: "rat \<Rightarrow> pyfloat" where
  "to_double q =
     (if q = 0 then Fin 0
      else let a = \<bar>q\<bar>;
               e = max (ilog2 a - 52) (- 1074);
               m = round_half_even (a / (2 powi e));
               v = of_int m * (2 powi e)
           in if 1024 \<le> ilog2 v then (if 0 < q then PosInf else NegInf)
              else if m = 0 then (if 0 < q then Fin 0 else NegZero)
              else Fin (if 0 < q then v else - v))"

text \<open>The product \<open>x * 100\<close> of a float and the int \<open>100\<close>.\<close>

fun times_100 :: "pyfloat \<Rightarrow> pyfloat" where
  "times_100 (Fin x) = to_double (x * 100)"
| "times_100 NegZero = NegZero"
| "times_100 PosInf = PosInf"
| "times_100 NegInf = NegInf"
| "times_100 NaN = NaN"

subsection \<open>Strings\<close>

text \<open>
  Strings are lists of 8-bit characters (the bytes of the text in UTF-8). \<open>lower\<close> acts
  on the ASCII letters and leaves every other byte as it is; the code compares its
  result with ASCII words only, which no text with another byte can equal.
  \<open>str.capitalize\<close> depends on the Unicode tables and is a parameter of the model.
\<close>

definition lower_char :: "char \<Rightarrow> char" where
  "lower_char c =
     (let n = (of_char c :: nat) in if 65 \<le> n \<and> n \<le> 90 then char_of (n + 32) else c)"

definition lower :: "string \<Rightarrow> string" where
  "lower s = map lower_char s"

definition digit_char :: "nat \<Rightarrow> char" where
  "digit_char d = char_of (48 + d)"

definition is_digit :: "char \<Rightarrow> bool" where
  "is_digit c = (48 \<le> (of_char c :: nat) \<and> (of_char c :: nat) \<le> 57)"

text \<open>\<open>str(n)\<close> for a natural number and for an int.\<close>

fun str_nat :: "nat \<Rightarrow> string" where
  "str_nat n = (if n < 10 then [digit_char n] else str_nat (n div 10) @ [digit_char (n mod 10)])"

declare str_nat.simps [simp del]

definition str_int :: "int \<Rightarrow> string" where
  "str_int i = (if i < 0 then CHR ''-'' # str_nat (nat (- i)) else str_nat (nat i))"

text \<open>The number a text of decimal digits denotes.\<close>

definition digits_value :: "string \<Rightarrow> nat" where
  "digits_value s = foldl (\<lambda>a c. 10 * a + (of_char c - 48)) 0 s"

subsection \<open>The format specification \<open>.2f\<close>\<close>

text \<open>
  \<open>format(x, '.2f')\<close> rounds the exact value of the float to hundredths, ties to even,
  keeps the sign of the float (also when the digits are all zero), and writes the
  non-finite values as \<open>inf\<close>, \<open>-inf\<close> and \<open>nan\<close>.
\<close>

definition hundredths :: "nat \<Rightarrow> string" where
  "hundredths n = str_nat (n div 100) @ ''.'' @ [digit_char (n div 10 mod 10), digit_char (n mod 10)]"

fun format_2f :: "pyfloat \<Rightarrow> string" where
  "format_2f (Fin x) =
     (if x < 0 then ''-'' else '''') @ hundredths (nat (round_half_even (\<bar>x\<bar> * 100)))"
| "format_2f NegZero = ''-0.00''"
| "format_2f PosInf = ''inf''"
| "format_2f NegInf = ''-inf''"
| "format_2f NaN = ''nan''"

text \<open>
  A text with exactly two decimal places: an optional minus sign, one or more digits,
  a point, two digits.
\<close>

definition two_decimals :: "string \<Rightarrow> bool" where
  "two_decimals s =
     (let t = (case s of [] \<Rightarrow> [] | c # cs \<Rightarrow> if c = CHR ''-'' then cs else s);
          ip = takeWhile is_digit t;
          r = dropWhile is_digit t
      in ip \<noteq> [] \<and> length r = 3 \<and> hd r = CHR ''.'' \<and> is_digit (r ! 1) \<and> is_digit (r ! 2))"

subsection \<open>Values read from the backend's answers\<close>

text \<open>
  What the code passes to \<open>float(...)\<close> or tests for truth: \<open>None\<close>, a bool, an int, a
  float or a string.
\<close>

datatype pyval = PNone | PBool bool | PInt int | PFloat pyfloat | PStr string

text \<open>
  \<open>float(v)\<close>. The interpreter's parsing of a string into a float is the parameter
  \<open>parse\<close>; an int too large for a binary64 raises \<open>OverflowError\<close>.
\<close>

fun py_float :: "(string \<Rightarrow> exn + pyfloat) \<Rightarrow> pyval \<Rightarrow> exn + pyfloat" where
  "py_float parse PNone =
     Inl (Exception (''float() argument must be a string or a real number, not 'NoneType'' @ [CHR 0x27]))"
| "py_float parse (PBool b) = Inr (Fin (if b then 1 else 0))"
| "py_float parse (PInt n) =
     (case to_double (of_int n) of
        PosInf \<Rightarrow> Inl (Exception ''int too large to convert to float'')
      | NegInf \<Rightarrow> Inl (Exception ''int too large to convert to float'')
      | f \<Rightarrow> Inr f)"
| "py_float parse (PFloat f) = Inr f"
| "py_float parse (PStr s) = parse s"

text \<open>The truth value of \<open>v\<close> in a condition.\<close>

fun truthy :: "pyval \<Rightarrow> bool" where
  "truthy PNone = False"
| "truthy (PBool b) = b"
| "truthy (PInt n) = (n \<noteq> 0)"
| "truthy (PFloat f) = (f \<noteq> Fin 0 \<and> f \<noteq> NegZero)"
| "truthy (PStr s) = (s \<noteq> [])"

text \<open>The float that \<open>float(v)\<close> returns, where it returns one.\<close>

definition amount :: "(string \<Rightarrow> exn + pyfloat) \<Rightarrow> pyval \<Rightarrow> pyfloat" where
  "amount parse v = (case py_float parse v of Inr f \<Rightarrow> f | Inl e \<Rightarrow> NaN)"

text \<open>An attribute the code guards with \<open>hasattr\<close>.\<close>

datatype 'a attribute = Absent | Present 'a

text \<open>
  The entities. An attribute that is only interpolated into the text is held as the
  string \<open>str\<close> gives for it; one that goes through \<open>float(...)\<close> is a \<open>pyval\<close>; one
  that is formatted with \<open>.2f\<close> directly is a float.
\<close>

record account =
  acc_id :: string
  acc_status :: string
  acc_currency :: string
  buying_power :: pyval
  cash :: pyval
  portfolio_value :: pyval
  equity :: pyval
  long_market_value :: pyval
  short_market_value :: pyval
  pattern_day_trader :: bool
  daytrade_count :: "string attribute"

record position =
  pos_symbol :: string
  pos_qty :: string
  market_value :: pyval
  avg_entry_price :: pyval
  current_price :: pyval
  unrealized_pl :: pyval
  unrealized_plpc :: pyval

record quote =
  ask_price :: pyfloat
  bid_price :: pyfloat
  ask_size :: string
  bid_size :: string
  quote_timestamp :: string

text \<open>\<open>bar_date\<close> is the text of \<open>bar.timestamp.date()\<close>.\<close>

record bar =
  bar_date :: string
  bar_open :: pyfloat
  bar_high :: pyfloat
  bar_low :: pyfloat
  bar_close :: pyfloat
  bar_volume :: string

text \<open>\<open>filled_at\<close> is \<open>None\<close> or a datetime, the latter given by its text.\<close>

record order =
  ord_id :: string
  ord_symbol :: string
  ord_type :: string
  ord_side :: string
  ord_qty :: string
  ord_status :: string
  ord_submitted_at :: string
  ord_time_in_force :: string
  filled_at :: "string option attribute"
  filled_avg_price :: "pyval attribute"
  limit_price :: pyval

subsection \<open>Requests, clients and what a run leaves behind\<close>

datatype OrderSide = BUY | SELL

datatype TimeInForce = DAY | GTC | OPG | CLS | IOC | FOK

datatype QueryOrderStatus = Status_OPEN | Status_CLOSED | Status_ALL

datatype TimeFrame = Minute | Hour | Day | Week | Month

record GetOrdersRequest =
  req_status :: QueryOrderStatus
  req_limit :: int

datatype OrderRequest =
  MarketOrderRequest string pyfloat OrderSide TimeInForce
| LimitOrderRequest string pyfloat OrderSide TimeInForce pyfloat

fun request_qty :: "OrderRequest \<Rightarrow> pyfloat" where
  "request_qty (MarketOrderRequest symbol qty side tif) = qty"
| "request_qty (LimitOrderRequest symbol qty side tif limit) = qty"

text \<open>
  A naive datetime is the number of microseconds since 0001-01-01 00:00:00. The code
  sets no \<open>end\<close> on the request for bars, so the field is \<open>None\<close>.
\<close>

record StockBarsRequest =
  symbol_or_symbols :: string
  timeframe :: TimeFrame
  start :: "int option"
  end_time :: "int option"

datatype call =
  Get_account
| Get_all_positions
| Get_orders GetOrdersRequest
| Submit_order OrderRequest
| Cancel_orders
| Close_all_positions bool
| Get_stock_latest_quote string
| Get_stock_bars StockBarsRequest

text \<open>
  Every object a constructor returns is a new one. An object is known by its number:
  the count of the objects built before it in the process. A run leaves behind the
  objects it built, each with the arguments of its constructor, and the calls it made,
  each with the number of the object it was made on.
\<close>

datatype event =
  New_TradingClient nat string string bool
| New_StockHistoricalDataClient nat string string
| On nat call

fun is_construction :: "event \<Rightarrow> bool" where
  "is_construction (On h c) = False"
| "is_construction _ = True"

text \<open>
  The answer to a request for bars is an object of the library. The code applies two
  operations to it: \<open>symbol in bars\<close> and \<open>bars[symbol]\<close>; the object is given by what
  each of them answers.
\<close>

record BarSet =
  bs_contains :: "string \<Rightarrow> bool"
  bs_getitem :: "string \<Rightarrow> exn + bar list"

text \<open>
  A client is given by what each of its methods answers: a value or an exception.
  \<open>tc_cancel_orders\<close> answers the text of the list of statuses. The answer to a
  request for the latest quote is a dictionary.
\<close>

record TradingClient =
  tc_get_account :: "exn + account"
  tc_get_all_positions :: "exn + position list"
  tc_get_orders :: "GetOrdersRequest \<Rightarrow> exn + order list"
  tc_submit_order :: "OrderRequest \<Rightarrow> exn + order"
  tc_cancel_orders :: "exn + string"
  tc_close_all_positions :: "bool \<Rightarrow> exn + unit"

record StockHistoricalDataClient =
  sc_get_stock_latest_quote :: "string \<Rightarrow> exn + (string \<rightharpoonup> quote)"
  sc_get_stock_bars :: "StockBarsRequest \<Rightarrow> exn + BarSet"

text \<open>
  What lies outside the module: the two constructors of the library (which may reject
  the credentials), the clock, \<open>float\<close> on a string and \<open>str.capitalize\<close>.
\<close>

record env =
  new_TradingClient :: "string \<Rightarrow> string \<Rightarrow> bool \<Rightarrow> exn + TradingClient"
  new_StockHistoricalDataClient :: "string \<Rightarrow> string \<Rightarrow> exn + StockHistoricalDataClient"
  now :: int
  float_of_str :: "string \<Rightarrow> exn + pyfloat"
  str_capitalize :: "string \<Rightarrow> string"

text \<open>
  The names bound at module level when the module is loaded; each of the two clients
  with its number.
\<close>

record module_globals =
  API_KEY :: string
  API_SECRET :: string
  PAPER :: bool
  trading_client :: "nat \<times> TradingClient"
  stock_client :: "nat \<times> StockHistoricalDataClient"

subsection \<open>Control: exceptions, loops, the handler\<close>

definition and_then :: "exn + 'a \<Rightarrow> ('a \<Rightarrow> exn + 'b) \<Rightarrow> exn + 'b" where
  "and_then r f = (case r of Inl e \<Rightarrow> Inl e | Inr x \<Rightarrow> f x)"

text \<open>\<open>for x in xs: result += block(x)\<close>, left at the first exception.\<close>

fun for_each :: "('a \<Rightarrow> exn + string) \<Rightarrow> string \<Rightarrow> 'a list \<Rightarrow> exn + string" where
  "for_each block result [] = Inr result"
| "for_each block result (x # xs) =
     (case block x of Inl e \<Rightarrow> Inl e | Inr s \<Rightarrow> for_each block (result @ s) xs)"

text \<open>
  The outcome of a run: the text it returned or the exception it raised, and what it
  left behind, in order.
\<close>

type_synonym outcome = "(exn + string) \<times> event list"

text \<open>
  \<open>except Exception as e: return f"<prefix>{str(e)}"\<close>: an instance of \<open>Exception\<close>
  becomes a text, any other exception goes on to the caller.
\<close>

definition except_Exception :: "string \<Rightarrow> outcome \<Rightarrow> outcome" where
  "except_Exception prefix r =
     (case fst r of
        Inl (Exception msg) \<Rightarrow> (Inr (prefix @ msg), snd r)
      | Inl (BaseException name) \<Rightarrow> (Inl (BaseException name), snd r)
      | Inr s \<Rightarrow> (Inr s, snd r))"

definition money :: "pyfloat \<Rightarrow> string" where
  "money x = ''$'' @ format_2f x"

subsection \<open>Account and positions\<close>

definition format_account :: "(string \<Rightarrow> exn + pyfloat) \<Rightarrow> account \<Rightarrow> exn + string" where
  "format_account parse a =
     and_then (py_float parse (buying_power a)) (\<lambda>bp.
     and_then (py_float parse (cash a)) (\<lambda>c.
     and_then (py_float parse (portfolio_value a)) (\<lambda>pv.
     and_then (py_float parse (equity a)) (\<lambda>eq.
     and_then (py_float parse (long_market_value a)) (\<lambda>lmv.
     and_then (py_float parse (short_market_value a)) (\<lambda>smv.
       Inr (''\<newline>Account Information:\<newline>-------------------\<newline>''
          @ ''Account ID: '' @ acc_id a @ ''\<newline>''
          @ ''Status: '' @ acc_status a @ ''\<newline>''
          @ ''Currency: '' @ acc_currency a @ ''\<newline>''
          @ ''Buying Power: '' @ money bp @ ''\<newline>''
          @ ''Cash: '' @ money c @ ''\<newline>''
          @ ''Portfolio Value: '' @ money pv @ ''\<newline>''
          @ ''Equity: '' @ money eq @ ''\<newline>''
          @ ''Long Market Value: '' @ money lmv @ ''\<newline>''
          @ ''Short Market Value: '' @ money smv @ ''\<newline>''
          @ ''Pattern Day Trader: '' @ (if pattern_day_trader a then ''Yes'' else ''No'') @ ''\<newline>''
          @ ''Day Trades Remaining: ''
          @ (case daytrade_count a of Present n \<Rightarrow> n | Absent \<Rightarrow> ''Unknown'')
          @ ''\<newline>'')))))))"

definition get_account_info_body :: "env \<Rightarrow> nat \<Rightarrow> string \<Rightarrow> string \<Rightarrow> bool \<Rightarrow> outcome" where
  "get_account_info_body w n api_key api_secret paper =
     (case new_TradingClient w api_key api_secret paper of
        Inl e \<Rightarrow> (Inl e, [])
      | Inr client \<Rightarrow>
          (case tc_get_account client of
             Inl e \<Rightarrow> (Inl e, [New_TradingClient n api_key api_secret paper, On n Get_account])
           | Inr a \<Rightarrow>
               (format_account (float_of_str w) a,
                [New_TradingClient n api_key api_secret paper, On n Get_account])))"

definition get_account_info ::
  "module_globals \<Rightarrow> env \<Rightarrow> nat \<Rightarrow> string \<Rightarrow> string \<Rightarrow> bool \<Rightarrow> outcome" where
  "get_account_info g w n api_key api_secret paper =
     except_Exception ''Error getting account info: ''
       (get_account_info_body w n api_key api_secret paper)"

definition format_position :: "(string \<Rightarrow> exn + pyfloat) \<Rightarrow> position \<Rightarrow> exn + string" where
  "format_position parse p =
     and_then (py_float parse (market_value p)) (\<lambda>mv.
     and_then (py_float parse (avg_entry_price p)) (\<lambda>aep.
     and_then (py_float parse (current_price p)) (\<lambda>cp.
     and_then (py_float parse (unrealized_pl p)) (\<lambda>pl.
     and_then (py_float parse (unrealized_plpc p)) (\<lambda>plpc.
       Inr (''\<newline>Symbol: '' @ pos_symbol p @ ''\<newline>''
          @ ''Quantity: '' @ pos_qty p @ '' shares\<newline>''
          @ ''Market Value: '' @ money mv @ ''\<newline>''
          @ ''Average Entry Price: '' @ money aep @ ''\<newline>''
          @ ''Current Price: '' @ money cp @ ''\<newline>''
          @ ''Unrealized P/L: '' @ money pl @ '' ('' @ format_2f (times_100 plpc) @ ''%)\<newline>''
          @ ''-------------------\<newline>''))))))"

text \<open>
  \<open>get_positions\<close> with the rendering of one position as a parameter, so that a
  statement can range over every rendering.
\<close>

definition get_positions_with ::
  "(position \<Rightarrow> exn + string) \<Rightarrow> env \<Rightarrow> nat \<Rightarrow> string \<Rightarrow> string \<Rightarrow> bool \<Rightarrow> outcome" where
  "get_positions_with block w n api_key api_secret paper =
     (case new_TradingClient w api_key api_secret paper of
        Inl e \<Rightarrow> (Inl e, [])
      | Inr client \<Rightarrow>
          (case tc_get_all_positions client of
             Inl e \<Rightarrow>
               (Inl e, [New_TradingClient n api_key api_secret paper, On n Get_all_positions])
           | Inr positions \<Rightarrow>
               if positions = []
               then (Inr ''No open positions found.'',
                     [New_TradingClient n api_key api_secret paper, On n Get_all_positions])
               else (for_each block ''Current Positions:\<newline>-------------------\<newline>'' positions,
                     [New_TradingClient n api_key api_secret paper, On n Get_all_positions])))"

definition get_positions_body :: "env \<Rightarrow> nat \<Rightarrow> string \<Rightarrow> string \<Rightarrow> bool \<Rightarrow> outcome" where
  "get_positions_body w n api_key api_secret paper =
     get_positions_with (format_position (float_of_str w)) w n api_key api_secret paper"

definition get_positions ::
  "module_globals \<Rightarrow> env \<Rightarrow> nat \<Rightarrow> string \<Rightarrow> string \<Rightarrow> bool \<Rightarrow> outcome" where
  "get_positions g w n api_key api_secret paper =
     except_Exception ''Error getting positions: ''
       (get_positions_body w n api_key api_secret paper)"

subsection \<open>Market data\<close>

definition format_quote :: "string \<Rightarrow> quote \<Rightarrow> string" where
  "format_quote symbol q =
     ''\<newline>Latest Quote for '' @ symbol @ '':\<newline>------------------------\<newline>''
     @ ''Ask Price: '' @ money (ask_price q) @ ''\<newline>''
     @ ''Bid Price: '' @ money (bid_price q) @ ''\<newline>''
     @ ''Ask Size: '' @ ask_size q @ ''\<newline>''
     @ ''Bid Size: '' @ bid_size q @ ''\<newline>''
     @ ''Timestamp: '' @ quote_timestamp q @ ''\<newline>''"

definition get_stock_quote_body :: "env \<Rightarrow> nat \<Rightarrow> string \<Rightarrow> string \<Rightarrow> string \<Rightarrow> outcome" where
  "get_stock_quote_body w n symbol api_key api_secret =
     (case new_StockHistoricalDataClient w api_key api_secret of
        Inl e \<Rightarrow> (Inl e, [])
      | Inr client \<Rightarrow>
          (case sc_get_stock_latest_quote client symbol of
             Inl e \<Rightarrow>
               (Inl e, [New_StockHistoricalDataClient n api_key api_secret,
                        On n (Get_stock_latest_quote symbol)])
           | Inr quotes \<Rightarrow>
               (case quotes symbol of
                  Some q \<Rightarrow>
                    (Inr (format_quote symbol q),
                     [New_StockHistoricalDataClient n api_key api_secret,
                      On n (Get_stock_latest_quote symbol)])
                | None \<Rightarrow>
                    (Inr (''No quote data found for '' @ symbol @ ''.''),
                     [New_StockHistoricalDataClient n api_key api_secret,
                      On n (Get_stock_latest_quote symbol)]))))"

definition get_stock_quote ::
  "module_globals \<Rightarrow> env \<Rightarrow> nat \<Rightarrow> string \<Rightarrow> string \<Rightarrow> string \<Rightarrow> outcome" where
  "get_stock_quote g w n symbol api_key api_secret =
     except_Exception (''Error fetching quote for '' @ symbol @ '': '')
       (get_stock_quote_body w n symbol api_key api_secret)"

text \<open>
  \<open>datetime.now() - timedelta(days=days)\<close>: \<open>timedelta\<close> refuses a number of days that
  does not fit a C int, and one of more than 999999999 in magnitude; the difference
  must be a date between the years 1 and 9999. All three are \<open>OverflowError\<close>.
\<close>

definition microseconds_per_day :: int where
  "microseconds_per_day = 86400000000"

definition datetime_max :: int where
  "datetime_max = 3652059 * microseconds_per_day - 1"

definition minus_days :: "int \<Rightarrow> int \<Rightarrow> exn + int" where
  "minus_days t days =
     (if days < - 2147483648 \<or> 2147483648 \<le> days
      then Inl (Exception ''Python int too large to convert to C int'')
      else if 999999999 < \<bar>days\<bar>
      then Inl (Exception (''days='' @ str_int days @ ''; must have magnitude <= 999999999''))
      else let r = t - days * microseconds_per_day
           in if r < 0 \<or> datetime_max < r then Inl (Exception ''date value out of range'')
              else Inr r)"

definition bar_line :: "bar \<Rightarrow> string" where
  "bar_line b =
     ''Date: '' @ bar_date b
     @ '', Open: '' @ money (bar_open b)
     @ '', High: '' @ money (bar_high b)
     @ '', Low: '' @ money (bar_low b)
     @ '', Close: '' @ money (bar_close b)
     @ '', Volume: '' @ bar_volume b @ ''\<newline>''"

definition format_bar :: "bar \<Rightarrow> exn + string" where
  "format_bar b = Inr (bar_line b)"

definition bars_header :: "string \<Rightarrow> int \<Rightarrow> string" where
  "bars_header symbol days =
     ''Historical Data for '' @ symbol @ '' (Last '' @ str_int days @ '' trading days):\<newline>''
     @ ''---------------------------------------------------\<newline>''"

definition no_bars :: "string \<Rightarrow> int \<Rightarrow> string" where
  "no_bars symbol days =
     ''No historical data found for '' @ symbol @ '' in the last '' @ str_int days @ '' days.''"

text \<open>
  The test is \<open>symbol in bars and bars[symbol]\<close>: the subscript is evaluated only when
  the membership test holds, and the list it gives counts as true when it is not empty.
\<close>

definition get_stock_bars_body ::
  "env \<Rightarrow> nat \<Rightarrow> string \<Rightarrow> string \<Rightarrow> string \<Rightarrow> int \<Rightarrow> outcome" where
  "get_stock_bars_body w n symbol api_key api_secret days =
     (case new_StockHistoricalDataClient w api_key api_secret of
        Inl e \<Rightarrow> (Inl e, [])
      | Inr client \<Rightarrow>
          (case minus_days (now w) days of
             Inl e \<Rightarrow> (Inl e, [New_StockHistoricalDataClient n api_key api_secret])
           | Inr start_time \<Rightarrow>
               (let request_params =
                      \<lparr>symbol_or_symbols = symbol, timeframe = Day,
                       start = Some start_time, end_time = None\<rparr>;
                    left = [New_StockHistoricalDataClient n api_key api_secret,
                            On n (Get_stock_bars request_params)]
                in case sc_get_stock_bars client request_params of
                     Inl e \<Rightarrow> (Inl e, left)
                   | Inr bars \<Rightarrow>
                       if bs_contains bars symbol
                       then (case bs_getitem bars symbol of
                               Inl e \<Rightarrow> (Inl e, left)
                             | Inr [] \<Rightarrow> (Inr (no_bars symbol days), left)
                             | Inr (b # bs) \<Rightarrow>
                                 (for_each format_bar (bars_header symbol days) (b # bs), left))
                       else (Inr (no_bars symbol days), left))))"

definition get_stock_bars ::
  "module_globals \<Rightarrow> env \<Rightarrow> nat \<Rightarrow> string \<Rightarrow> string \<Rightarrow> string \<Rightarrow> int \<Rightarrow> outcome" where
  "get_stock_bars g w n symbol api_key api_secret days =
     except_Exception (''Error fetching historical data for '' @ symbol @ '': '')
       (get_stock_bars_body w n symbol api_key api_secret days)"

subsection \<open>Orders\<close>

definition format_order :: "(string \<Rightarrow> exn + pyfloat) \<Rightarrow> order \<Rightarrow> exn + string" where
  "format_order parse ord =
     (let result1 =
            ''\<newline>Symbol: '' @ ord_symbol ord @ ''\<newline>''
            @ ''ID: '' @ ord_id ord @ ''\<newline>''
            @ ''Type: '' @ ord_type ord @ ''\<newline>''
            @ ''Side: '' @ ord_side ord @ ''\<newline>''
            @ ''Quantity: '' @ ord_qty ord @ ''\<newline>''
            @ ''Status: '' @ ord_status ord @ ''\<newline>''
            @ ''Submitted At: '' @ ord_submitted_at ord @ ''\<newline>'';
          result2 =
            (case filled_at ord of
               Present (Some t) \<Rightarrow> result1 @ ''Filled At: '' @ t @ ''\<newline>''
             | _ \<Rightarrow> result1)
      in and_then
           (case filled_avg_price ord of
              Present v \<Rightarrow>
                if truthy v
                then and_then (py_float parse v)
                       (\<lambda>p. Inr (result2 @ ''Filled Price: '' @ money p @ ''\<newline>''))
                else Inr result2
            | Absent \<Rightarrow> Inr result2)
           (\<lambda>result3. Inr (result3 @ ''-----------------------------------\<newline>'')))"

definition orders_header :: "env \<Rightarrow> string \<Rightarrow> nat \<Rightarrow> string" where
  "orders_header w status k =
     str_capitalize w status @ '' Orders (Last '' @ str_nat k @ ''):\<newline>''
     @ ''-----------------------------------\<newline>''"

definition get_orders_body ::
  "env \<Rightarrow> nat \<Rightarrow> string \<Rightarrow> string \<Rightarrow> bool \<Rightarrow> string \<Rightarrow> int \<Rightarrow> outcome" where
  "get_orders_body w n api_key api_secret paper status limit =
     (case new_TradingClient w api_key api_secret paper of
        Inl e \<Rightarrow> (Inl e, [])
      | Inr client \<Rightarrow>
          (let query_status =
                 (if lower status = ''open'' then Status_OPEN
                  else if lower status = ''closed'' then Status_CLOSED
                  else Status_ALL);
               request_params = \<lparr>req_status = query_status, req_limit = limit\<rparr>;
               left = [New_TradingClient n api_key api_secret paper,
                       On n (Get_orders request_params)]
           in case tc_get_orders client request_params of
                Inl e \<Rightarrow> (Inl e, left)
              | Inr orders \<Rightarrow>
                  if orders = []
                  then (Inr (''No '' @ status @ '' orders found.''), left)
                  else (for_each (format_order (float_of_str w))
                          (orders_header w status (length orders)) orders,
                        left)))"

definition get_orders ::
  "module_globals \<Rightarrow> env \<Rightarrow> nat \<Rightarrow> string \<Rightarrow> string \<Rightarrow> bool \<Rightarrow> string \<Rightarrow> int \<Rightarrow> outcome" where
  "get_orders g w n api_key api_secret paper status limit =
     except_Exception ''Error fetching orders: ''
       (get_orders_body w n api_key api_secret paper status limit)"

definition invalid_side :: "string \<Rightarrow> string" where
  "invalid_side side = ''Invalid order side: '' @ side @ ''. Must be 'buy' or 'sell'.''"

definition format_market_order :: "order \<Rightarrow> string" where
  "format_market_order ord =
     ''\<newline>Market Order Placed Successfully:\<newline>--------------------------------\<newline>''
     @ ''Order ID: '' @ ord_id ord @ ''\<newline>''
     @ ''Symbol: '' @ ord_symbol ord @ ''\<newline>''
     @ ''Side: '' @ ord_side ord @ ''\<newline>''
     @ ''Quantity: '' @ ord_qty ord @ ''\<newline>''
     @ ''Type: '' @ ord_type ord @ ''\<newline>''
     @ ''Time In Force: '' @ ord_time_in_force ord @ ''\<newline>''
     @ ''Status: '' @ ord_status ord @ ''\<newline>''"

definition place_market_order_body ::
  "env \<Rightarrow> nat \<Rightarrow> string \<Rightarrow> string \<Rightarrow> pyfloat \<Rightarrow> string \<Rightarrow> string \<Rightarrow> bool \<Rightarrow> outcome" where
  "place_market_order_body w n symbol side quantity api_key api_secret paper =
     (case new_TradingClient w api_key api_secret paper of
        Inl e \<Rightarrow> (Inl e, [])
      | Inr client \<Rightarrow>
          (case (if lower side = ''buy'' then Some BUY
                 else if lower side = ''sell'' then Some SELL
                 else None) of
             None \<Rightarrow> (Inr (invalid_side side), [New_TradingClient n api_key api_secret paper])
           | Some order_side \<Rightarrow>
               (let order_data = MarketOrderRequest symbol quantity order_side DAY;
                    left = [New_TradingClient n api_key api_secret paper,
                            On n (Submit_order order_data)]
                in case tc_submit_order client order_data of
                     Inl e \<Rightarrow> (Inl e, left)
                   | Inr ord \<Rightarrow> (Inr (format_market_order ord), left))))"

definition place_market_order ::
  "module_globals \<Rightarrow> env \<Rightarrow> nat \<Rightarrow> string \<Rightarrow> string \<Rightarrow> pyfloat \<Rightarrow> string \<Rightarrow> string \<Rightarrow> bool
   \<Rightarrow> outcome" where
  "place_market_order g w n symbol side quantity api_key api_secret paper =
     except_Exception ''Error placing market order: ''
       (place_market_order_body w n symbol side quantity api_key api_secret paper)"

definition format_limit_order :: "(string \<Rightarrow> exn + pyfloat) \<Rightarrow> order \<Rightarrow> exn + string" where
  "format_limit_order parse ord =
     and_then (py_float parse (limit_price ord)) (\<lambda>lp.
       Inr (''\<newline>Limit Order Placed Successfully:\<newline>-------------------------------\<newline>''
          @ ''Order ID: '' @ ord_id ord @ ''\<newline>''
          @ ''Symbol: '' @ ord_symbol ord @ ''\<newline>''
          @ ''Side: '' @ ord_side ord @ ''\<newline>''
          @ ''Quantity: '' @ ord_qty ord @ ''\<newline>''
          @ ''Type: '' @ ord_type ord @ ''\<newline>''
          @ ''Limit Price: '' @ money lp @ ''\<newline>''
          @ ''Time In Force: '' @ ord_time_in_force ord @ ''\<newline>''
          @ ''Status: '' @ ord_status ord @ ''\<newline>''))"

definition place_limit_order_body ::
  "env \<Rightarrow> nat \<Rightarrow> string \<Rightarrow> string \<Rightarrow> pyfloat \<Rightarrow> pyfloat \<Rightarrow> string \<Rightarrow> string \<Rightarrow> bool
   \<Rightarrow> outcome" where
  "place_limit_order_body w n symbol side quantity limit api_key api_secret paper =
     (case new_TradingClient w api_key api_secret paper of
        Inl e \<Rightarrow> (Inl e, [])
      | Inr client \<Rightarrow>
          (case (if lower side = ''buy'' then Some BUY
                 else if lower side = ''sell'' then Some SELL
                 else None) of
             None \<Rightarrow> (Inr (invalid_side side), [New_TradingClient n api_key api_secret paper])
           | Some order_side \<Rightarrow>
               (let order_data = LimitOrderRequest symbol quantity order_side DAY limit;
                    left = [New_TradingClient n api_key api_secret paper,
                            On n (Submit_order order_data)]
                in case tc_submit_order client order_data of
                     Inl e \<Rightarrow> (Inl e, left)
                   | Inr ord \<Rightarrow> (format_limit_order (float_of_str w) ord, left))))"

definition place_limit_order ::
  "module_globals \<Rightarrow> env \<Rightarrow> nat \<Rightarrow> string \<Rightarrow> string \<Rightarrow> pyfloat \<Rightarrow> pyfloat \<Rightarrow> string \<Rightarrow> string
   \<Rightarrow> bool \<Rightarrow> outcome" where
  "place_limit_order g w n symbol side quantity limit api_key api_secret paper =
     except_Exception ''Error placing limit order: ''
       (place_limit_order_body w n symbol side quantity limit api_key api_secret paper)"

definition cancel_all_orders_body :: "env \<Rightarrow> nat \<Rightarrow> string \<Rightarrow> string \<Rightarrow> bool \<Rightarrow> outcome" where
  "cancel_all_orders_body w n api_key api_secret paper =
     (case new_TradingClient w api_key api_secret paper of
        Inl e \<Rightarrow> (Inl e, [])
      | Inr client \<Rightarrow>
          (case tc_cancel_orders client of
             Inl e \<Rightarrow> (Inl e, [New_TradingClient n api_key api_secret paper, On n Cancel_orders])
           | Inr cancel_statuses \<Rightarrow>
               (Inr (''Successfully canceled all open orders. Status: '' @ cancel_statuses),
                [New_TradingClient n api_key api_secret paper, On n Cancel_orders])))"

definition cancel_all_orders ::
  "module_globals \<Rightarrow> env \<Rightarrow> nat \<Rightarrow> string \<Rightarrow> string \<Rightarrow> bool \<Rightarrow> outcome" where
  "cancel_all_orders g w n api_key api_secret paper =
     except_Exception ''Error canceling orders: ''
       (cancel_all_orders_body w n api_key api_secret paper)"

definition close_all_positions_body ::
  "env \<Rightarrow> nat \<Rightarrow> string \<Rightarrow> string \<Rightarrow> bool \<Rightarrow> bool \<Rightarrow> outcome" where
  "close_all_positions_body w n api_key api_secret paper cancel_orders =
     (case new_TradingClient w api_key api_secret paper of
        Inl e \<Rightarrow> (Inl e, [])
      | Inr client \<Rightarrow>
          (case tc_close_all_positions client cancel_orders of
             Inl e \<Rightarrow>
               (Inl e, [New_TradingClient n api_key api_secret paper,
                        On n (Close_all_positions cancel_orders)])
           | Inr u \<Rightarrow>
               (Inr ''Successfully closed all positions.'',
                [New_TradingClient n api_key api_secret paper,
                 On n (Close_all_positions cancel_orders)])))"

definition close_all_positions ::
  "module_globals \<Rightarrow> env \<Rightarrow> nat \<Rightarrow> string \<Rightarrow> string \<Rightarrow> bool \<Rightarrow> bool \<Rightarrow> outcome" where
  "close_all_positions g w n api_key api_secret paper cancel_orders =
     except_Exception ''Error closing positions: ''
       (close_all_positions_body w n api_key api_secret paper cancel_orders)"

subsection \<open>The table of tools\<close>

text \<open>
  A call of a tool by name. An argument with a default in the signature is optional:
  \<open>paper = True\<close>, \<open>days = 5\<close>, \<open>status = "all"\<close>, \<open>limit = 10\<close>, \<open>cancel_orders = True\<close>.
\<close>

datatype invocation =
  Get_account_info string string "bool option"
| Get_positions string string "bool option"
| Get_stock_quote string string string
| Get_stock_bars_tool string string string "int option"
| Get_orders_tool string string "bool option" "string option" "int option"
| Place_market_order string string pyfloat string string "bool option"
| Place_limit_order string string pyfloat pyfloat string string "bool option"
| Cancel_all_orders string string "bool option"
| Close_all_positions_tool string string "bool option" "bool option"

definition default :: "'a \<Rightarrow> 'a option \<Rightarrow> 'a" where
  "default d x = (case x of None \<Rightarrow> d | Some v \<Rightarrow> v)"

fun body :: "env \<Rightarrow> nat \<Rightarrow> invocation \<Rightarrow> outcome" where
  "body w n (Get_account_info k s p) = get_account_info_body w n k s (default True p)"
| "body w n (Get_positions k s p) = get_positions_body w n k s (default True p)"
| "body w n (Get_stock_quote symbol k s) = get_stock_quote_body w n symbol k s"
| "body w n (Get_stock_bars_tool symbol k s days) =
     get_stock_bars_body w n symbol k s (default 5 days)"
| "body w n (Get_orders_tool k s p status limit) =
     get_orders_body w n k s (default True p) (default ''all'' status) (default 10 limit)"
| "body w n (Place_market_order symbol side quantity k s p) =
     place_market_order_body w n symbol side quantity k s (default True p)"
| "body w n (Place_limit_order symbol side quantity limit k s p) =
     place_limit_order_body w n symbol side quantity limit k s (default True p)"
| "body w n (Cancel_all_orders k s p) = cancel_all_orders_body w n k s (default True p)"
| "body w n (Close_all_positions_tool k s p c) =
     close_all_positions_body w n k s (default True p) (default True c)"

text \<open>
  \<open>call_tool g w n i\<close>: the tool \<open>i\<close> names, run with the module-level names \<open>g\<close> in the
  world \<open>w\<close>, when \<open>n\<close> objects have been built in the process so far.
\<close>

fun call_tool :: "module_globals \<Rightarrow> env \<Rightarrow> nat \<Rightarrow> invocation \<Rightarrow> outcome" where
  "call_tool g w n (Get_account_info k s p) = get_account_info g w n k s (default True p)"
| "call_tool g w n (Get_positions k s p) = get_positions g w n k s (default True p)"
| "call_tool g w n (Get_stock_quote symbol k s) = get_stock_quote g w n symbol k s"
| "call_tool g w n (Get_stock_bars_tool symbol k s days) =
     get_stock_bars g w n symbol k s (default 5 days)"
| "call_tool g w n (Get_orders_tool k s p status limit) =
     get_orders g w n k s (default True p) (default ''all'' status) (default 10 limit)"
| "call_tool g w n (Place_market_order symbol side quantity k s p) =
     place_market_order g w n symbol side quantity k s (default True p)"
| "call_tool g w n (Place_limit_order symbol side quantity limit k s p) =
     place_limit_order g w n symbol side quantity limit k s (default True p)"
| "call_tool g w n (Cancel_all_orders k s p) = cancel_all_orders g w n k s (default True p)"
| "call_tool g w n (Close_all_positions_tool k s p c) =
     close_all_positions g w n k s (default True p) (default True c)"

text \<open>What each tool's handler writes before the message of the exception.\<close>

fun doing :: "invocation \<Rightarrow> string" where
  "doing (Get_account_info k s p) = ''getting account info''"
| "doing (Get_positions k s p) = ''getting positions''"
| "doing (Get_stock_quote symbol k s) = ''fetching quote for '' @ symbol"
| "doing (Get_stock_bars_tool symbol k s days) = ''fetching historical data for '' @ symbol"
| "doing (Get_orders_tool k s p status limit) = ''fetching orders''"
| "doing (Place_market_order symbol side quantity k s p) = ''placing market order''"
| "doing (Place_limit_order symbol side quantity limit k s p) = ''placing limit order''"
| "doing (Cancel_all_orders k s p) = ''canceling orders''"
| "doing (Close_all_positions_tool k s p c) = ''closing positions''"

text \<open>
  What the constructor of the library answers for the credentials of a call, and the
  object that this construction leaves behind when it is the \<open>n\<close>-th of the process.
\<close>

fun client_of ::
  "env \<Rightarrow> invocation \<Rightarrow> (exn + TradingClient) + (exn + StockHistoricalDataClient)" where
  "client_of w (Get_account_info k s p) = Inl (new_TradingClient w k s (default True p))"
| "client_of w (Get_positions k s p) = Inl (new_TradingClient w k s (default True p))"
| "client_of w (Get_stock_quote symbol k s) = Inr (new_StockHistoricalDataClient w k s)"
| "client_of w (Get_stock_bars_tool symbol k s days) = Inr (new_StockHistoricalDataClient w k s)"
| "client_of w (Get_orders_tool k s p status limit) =
     Inl (new_TradingClient w k s (default True p))"
| "client_of w (Place_market_order symbol side quantity k s p) =
     Inl (new_TradingClient w k s (default True p))"
| "client_of w (Place_limit_order symbol side quantity limit k s p) =
     Inl (new_TradingClient w k s (default True p))"
| "client_of w (Cancel_all_orders k s p) = Inl (new_TradingClient w k s (default True p))"
| "client_of w (Close_all_positions_tool k s p c) =
     Inl (new_TradingClient w k s (default True p))"

fun construction :: "nat \<Rightarrow> invocation \<Rightarrow> event" where
  "construction n (Get_account_info k s p) = New_TradingClient n k s (default True p)"
| "construction n (Get_positions k s p) = New_TradingClient n k s (default True p)"
| "construction n (Get_stock_quote symbol k s) = New_StockHistoricalDataClient n k s"
| "construction n (Get_stock_bars_tool symbol k s days) = New_StockHistoricalDataClient n k s"
| "construction n (Get_orders_tool k s p status limit) =
     New_TradingClient n k s (default True p)"
| "construction n (Place_market_order symbol side quantity k s p) =
     New_TradingClient n k s (default True p)"
| "construction n (Place_limit_order symbol side quantity limit k s p) =
     New_TradingClient n k s (default True p)"
| "construction n (Cancel_all_orders k s p) = New_TradingClient n k s (default True p)"
| "construction n (Close_all_positions_tool k s p c) =
     New_TradingClient n k s (default True p)"

text \<open>The construction raises \<open>e\<close>; the construction returns a client.\<close>

definition construction_raises :: "env \<Rightarrow> invocation \<Rightarrow> exn \<Rightarrow> bool" where
  "construction_raises w i e = (client_of w i = Inl (Inl e) \<or> client_of w i = Inr (Inl e))"

definition constructs :: "env \<Rightarrow> invocation \<Rightarrow> bool" where
  "constructs w i =
     (case client_of w i of
        Inl (Inr c) \<Rightarrow> True
      | Inr (Inr c) \<Rightarrow> True
      | _ \<Rightarrow> False)"

text \<open>A call made on the object number \<open>h\<close>.\<close>

fun made_on :: "nat \<Rightarrow> event \<Rightarrow> bool" where
  "made_on h (On h' c) = (h' = h)"
| "made_on h _ = False"

subsection \<open>The values a text is rendered from\<close>

text \<open>The first exception in a sequence of evaluations, if there is one.\<close>

fun first_error :: "(exn + 'a) list \<Rightarrow> exn option" where
  "first_error [] = None"
| "first_error (Inl e # rs) = Some e"
| "first_error (Inr x # rs) = first_error rs"

text \<open>
  The values each rendering passes to \<open>float(...)\<close>, in the order of the text: the
  six amounts of an account, the four amounts and the rate of a position, and the
  average price of an order where the attribute is there and counts as true.
\<close>

definition account_amounts :: "account \<Rightarrow> pyval list" where
  "account_amounts a =
     [buying_power a, cash a, portfolio_value a, equity a, long_market_value a,
      short_market_value a]"

definition position_amounts :: "position \<Rightarrow> pyval list" where
  "position_amounts p =
     [market_value p, avg_entry_price p, current_price p, unrealized_pl p, unrealized_plpc p]"

definition order_amounts :: "order \<Rightarrow> pyval list" where
  "order_amounts ord =
     (case filled_avg_price ord of
        Present v \<Rightarrow> if truthy v then [v] else []
      | Absent \<Rightarrow> [])"

text \<open>
  The reading of a text \<open>s\<close> as a number of hundredths: \<open>s\<close> is written with two decimal
  places and its digits, the point left out, denote \<open>n\<close>.
\<close>

definition reads_as_hundredths :: "string \<Rightarrow> nat \<Rightarrow> bool" where
  "reads_as_hundredths s n = (two_decimals s \<and> digits_value (filter is_digit s) = n)"

text \<open>
  \<open>n\<close> is \<open>q\<close> rounded to the nearest natural number, the even one of the two when \<open>q\<close>
  lies half way.
\<close>

definition nearest_ties_even :: "rat \<Rightarrow> nat \<Rightarrow> bool" where
  "nearest_ties_even q n =
     (\<bar>of_nat n - q\<bar> \<le> 1 / 2 \<and> (\<bar>of_nat n - q\<bar> = 1 / 2 \<longrightarrow> even n))"

subsection \<open>Loading the module\<close>

text \<open>
  What the module does when it is loaded, after the logging and the server object are
  set up: it reads the default credentials from the environment, raises \<open>ValueError\<close>
  when the key or the secret is missing or empty, and builds the two module-level
  clients, the first two objects of the process, leaving the process with status 1
  when a constructor raises an \<open>Exception\<close>.
\<close>

datatype 'a startup = Started 'a | Raised exn | Exit int

definition load_module :: "env \<Rightarrow> (string \<rightharpoonup> string) \<Rightarrow> module_globals startup" where
  "load_module w getenv =
     (let paper = (lower (default ''true'' (getenv ''PAPER'')) = ''true'')
      in case (getenv ''API_KEY_ID'', getenv ''API_SECRET_KEY'') of
           (Some k, Some s) \<Rightarrow>
             if k = [] \<or> s = []
             then Raised (Exception ''Alpaca API credentials not found in environment variables.'')
             else (case new_TradingClient w k s paper of
                     Inl (Exception msg) \<Rightarrow> Exit 1
                   | Inl (BaseException name) \<Rightarrow> Raised (BaseException name)
                   | Inr tc \<Rightarrow>
                       (case new_StockHistoricalDataClient w k s of
                          Inl (Exception msg) \<Rightarrow> Exit 1
                        | Inl (BaseException name) \<Rightarrow> Raised (BaseException name)
                        | Inr sc \<Rightarrow>
                            Started \<lparr>API_KEY = k, API_SECRET = s, PAPER = paper,
                                     trading_client = (0, tc), stock_client = (1, sc)\<rparr>))
         | _ \<Rightarrow> Raised (Exception ''Alpaca API credentials not found in environment variables.''))"

subsection \<open>A concrete environment\<close>

text \<open>
  The floats are the binary64 values of 100.0, 12.3456, 0.005, 150.125 and 150.1.
\<close>

definition demo_account :: account where
  "demo_account =
     \<lparr>acc_id = ''4f1d'', acc_status = ''ACTIVE'', acc_currency = ''USD'',
      buying_power = PFloat (Fin 100),
      cash = PFloat (Fin (6949954944958149 / 562949953421312)),
      portfolio_value = PFloat (Fin (5764607523034235 / 1152921504606846976)),
      equity = PFloat (Fin (1201 / 8)),
      long_market_value = PFloat NegZero,
      short_market_value = PFloat (Fin (- 5 / 4)),
      pattern_day_trader = False,
      daytrade_count = Absent\<rparr>"

definition demo_order :: order where
  "demo_order =
     \<lparr>ord_id = ''61e6'', ord_symbol = ''AAPL'', ord_type = ''market'', ord_side = ''buy'',
      ord_qty = ''10'', ord_status = ''accepted'', ord_submitted_at = ''2024-01-10 14:30:00'',
      ord_time_in_force = ''day'', filled_at = Present None, filled_avg_price = Present PNone,
      limit_price = PNone\<rparr>"

definition demo_trading_client :: TradingClient where
  "demo_trading_client =
     \<lparr>tc_get_account = Inr demo_account,
      tc_get_all_positions = Inr [],
      tc_get_orders = (\<lambda>r. Inl (Exception ''rate limit exceeded'')),
      tc_submit_order = (\<lambda>r. Inr demo_order),
      tc_cancel_orders = Inr ''[]'',
      tc_close_all_positions = (\<lambda>c. Inr ())\<rparr>"

definition demo_position :: position where
  "demo_position =
     \<lparr>pos_symbol = ''AAPL'', pos_qty = ''10'',
      market_value = PFloat (Fin (1201 / 8)),
      avg_entry_price = PFloat (Fin 100),
      current_price = PFloat (Fin (1201 / 8)),
      unrealized_pl = PFloat (Fin (- 5 / 4)),
      unrealized_plpc = PFloat (Fin 0)\<rparr>"

text \<open>
  A second trading client: its account has no cash figure, it holds one position, and
  it refuses every order and every cancellation. A third one: the process is
  interrupted while it waits for the orders or for the closing of the positions.
\<close>

definition failing_client :: TradingClient where
  "failing_client =
     demo_trading_client
       \<lparr>tc_get_account := Inr (demo_account\<lparr>cash := PNone\<rparr>),
        tc_get_all_positions := Inr [demo_position],
        tc_submit_order := (\<lambda>r. Inl (Exception ''insufficient buying power'')),
        tc_cancel_orders := Inl (Exception ''forbidden'')\<rparr>"

definition interrupted_client :: TradingClient where
  "interrupted_client =
     demo_trading_client
       \<lparr>tc_get_orders := (\<lambda>r. Inl (BaseException ''KeyboardInterrupt'')),
        tc_close_all_positions := (\<lambda>c. Inl (BaseException ''KeyboardInterrupt''))\<rparr>"

definition demo_quote :: quote where
  "demo_quote =
     \<lparr>ask_price = Fin (1201 / 8), bid_price = Fin (5281174250533683 / 35184372088832),
      ask_size = ''3'', bid_size = ''5'', quote_timestamp = ''2024-01-10 14:30:00''\<rparr>"

definition demo_bars :: "bar list" where
  "demo_bars =
     [\<lparr>bar_date = ''2024-01-09'', bar_open = Fin 185, bar_high = Fin 186, bar_low = Fin 184,
       bar_close = Fin (371 / 2), bar_volume = ''1000''\<rparr>,
      \<lparr>bar_date = ''2024-01-08'', bar_open = Fin 181, bar_high = Fin 182, bar_low = Fin 180,
       bar_close = Fin (363 / 2), bar_volume = ''2000''\<rparr>]"

text \<open>
  The \<open>BarSet\<close> of the library, holding the dictionary \<open>d\<close> from symbols to bars. The
  class defines \<open>__getitem__\<close>, which looks the symbol up in \<open>d\<close> and raises \<open>KeyError\<close>
  (whose text is its message in quotes) when it is not there. It defines no \<open>__contains__\<close>, and the \<open>__iter__\<close> it inherits
  from the base class of its fields yields pairs of a field name and a value, none of
  which is equal to a string: \<open>symbol in bars\<close> is \<open>False\<close> for every symbol.
\<close>

definition library_BarSet :: "(string \<rightharpoonup> bar list) \<Rightarrow> BarSet" where
  "library_BarSet d =
     \<lparr>bs_contains = (\<lambda>symbol. False),
      bs_getitem = (\<lambda>symbol. case d symbol of
                                Some bs \<Rightarrow> Inr bs
                              | None \<Rightarrow>
                                  Inl (Exception ([CHR 0x27] @ ''No key '' @ symbol
                                                  @ '' was found.'' @ [CHR 0x27])))\<rparr>"

text \<open>
  An answer that does tell whether it holds a symbol, as a dictionary would.
\<close>

definition dict_BarSet :: "(string \<rightharpoonup> bar list) \<Rightarrow> BarSet" where
  "dict_BarSet d =
     \<lparr>bs_contains = (\<lambda>symbol. d symbol \<noteq> None),
      bs_getitem = (\<lambda>symbol. case d symbol of
                                Some bs \<Rightarrow> Inr bs
                              | None \<Rightarrow> Inl (Exception ([CHR 0x27] @ symbol @ [CHR 0x27])))\<rparr>"

text \<open>
  The stock client answers a request for the bars of \<open>DICT\<close> with a dictionary holding
  two bars, and every other request with the \<open>BarSet\<close> of the library holding the bars of
  \<open>AAPL\<close>. The quote of \<open>INF\<close> has an infinite ask price, that of \<open>NAN\<close> a bid price
  that is not a number.
\<close>

definition demo_stock_client :: StockHistoricalDataClient where
  "demo_stock_client =
     \<lparr>sc_get_stock_latest_quote =
        (\<lambda>symbol. Inr (if symbol = ''INF''
                        then [''INF'' \<mapsto> demo_quote\<lparr>ask_price := PosInf\<rparr>]
                        else if symbol = ''NAN''
                        then [''NAN'' \<mapsto> demo_quote\<lparr>bid_price := NaN\<rparr>]
                        else [''AAPL'' \<mapsto> demo_quote])),
      sc_get_stock_bars =
        (\<lambda>r. if symbol_or_symbols r = ''DICT''
              then Inr (dict_BarSet [''DICT'' \<mapsto> demo_bars])
              else Inr (library_BarSet [''AAPL'' \<mapsto> demo_bars, ''MSFT'' \<mapsto> []]))\<rparr>"

text \<open>\<open>str.capitalize\<close> on a text of ASCII characters.\<close>

definition upper_char :: "char \<Rightarrow> char" where
  "upper_char c =
     (let n = (of_char c :: nat) in if 97 \<le> n \<and> n \<le> 122 then char_of (n - 32) else c)"

fun ascii_capitalize :: "string \<Rightarrow> string" where
  "ascii_capitalize [] = []"
| "ascii_capitalize (c # cs) = upper_char c # map lower_char cs"

text \<open>
  The constructors refuse an empty key or secret; the key \<open>PK2\<close> opens the second
  trading client, the key \<open>PK3\<close> the third, every other key the first; the clock reads
  2024-01-10 00:00:00.
\<close>

definition demo_env :: env where
  "demo_env =
     \<lparr>new_TradingClient =
        (\<lambda>k s p. if k = [] \<or> s = []
                   then Inl (Exception ''You must supply a method of authentication'')
                   else if k = ''PK2'' then Inr failing_client
                   else if k = ''PK3'' then Inr interrupted_client
                   else Inr demo_trading_client),
      new_StockHistoricalDataClient =
        (\<lambda>k s. if k = [] \<or> s = []
                 then Inl (Exception ''You must supply a method of authentication'')
                 else Inr demo_stock_client),
      now = 63840441600000000,
      float_of_str = (\<lambda>s. Inl (Exception ''could not convert string to float'')),
      str_capitalize = ascii_capitalize\<rparr>"

text \<open>Two settings of the process environment, and the names each one leaves bound.\<close>

definition demo_getenv :: "string \<rightharpoonup> string" where
  "demo_getenv = [''API_KEY_ID'' \<mapsto> ''PK1'', ''API_SECRET_KEY'' \<mapsto> ''S1'']"

definition other_getenv :: "string \<rightharpoonup> string" where
  "other_getenv =
     [''API_KEY_ID'' \<mapsto> ''PK2'', ''API_SECRET_KEY'' \<mapsto> ''S2'', ''PAPER'' \<mapsto> ''False'']"

definition demo_globals :: module_globals where
  "demo_globals =
     \<lparr>API_KEY = ''PK1'', API_SECRET = ''S1'', PAPER = True,
      trading_client = (0, demo_trading_client), stock_client = (1, demo_stock_client)\<rparr>"

definition other_globals :: module_globals where
  "other_globals =
     \<lparr>API_KEY = ''PK2'', API_SECRET = ''S2'', PAPER = False,
      trading_client = (0, failing_client), stock_client = (1, demo_stock_client)\<rparr>"

section \<open>Properties\<close>

subsection \<open>Rounding and the digits of a number\<close>

lemma floor_bounds: "rat_of_int \<lfloor>q\<rfloor> \<le> q \<and> q < rat_of_int \<lfloor>q\<rfloor> + 1"
  by linarith

lemma round_half_even_nearest: "\<bar>rat_of_int (round_half_even q) - q\<bar> \<le> 1 / 2"
  using floor_bounds [of q] by (auto simp: round_half_even_def Let_def)

lemma round_half_even_unique:
  assumes "\<bar>rat_of_int n - q\<bar> < 1 / 2"
  shows "round_half_even q = n"
proof -
  have "\<bar>rat_of_int (round_half_even q) - rat_of_int n\<bar> < 1"
    using round_half_even_nearest [of q] assms by linarith
  then have "\<bar>rat_of_int (round_half_even q - n)\<bar> < rat_of_int 1"
    by simp
  then have "\<bar>round_half_even q - n\<bar> < 1"
    unfolding of_int_abs [symmetric] of_int_less_iff .
  then show ?thesis by simp
qed

lemma round_half_even_tie:
  assumes "q = rat_of_int n + 1 / 2" and "even n"
  shows "round_half_even q = n"
proof -
  have "\<lfloor>q\<rfloor> = n" using assms(1) by (simp add: floor_unique)
  then show ?thesis using assms by (simp add: round_half_even_def Let_def)
qed

lemma digit_char_simps:
  "digit_char 0 = CHR ''0''" "digit_char 1 = CHR ''1''" "digit_char (Suc 0) = CHR ''1''"
  "digit_char 2 = CHR ''2''" "digit_char 3 = CHR ''3''" "digit_char 4 = CHR ''4''"
  "digit_char 5 = CHR ''5''" "digit_char 6 = CHR ''6''" "digit_char 7 = CHR ''7''"
  "digit_char 8 = CHR ''8''" "digit_char 9 = CHR ''9''"
  by (code_simp+)

lemmas eval_str = hundredths_def str_int_def str_nat.simps digit_char_simps

subsection \<open>The format on the floats of the concrete environment\<close>

lemma round_100: "round_half_even (\<bar>100\<bar> * 100) = 10000"
  by (rule round_half_even_unique) simp

lemma round_12_3456:
  "round_half_even (\<bar>6949954944958149 / 562949953421312\<bar> * 100) = 1235"
  by (rule round_half_even_unique) simp

lemma round_0_005:
  "round_half_even (\<bar>5764607523034235 / 1152921504606846976\<bar> * 100) = 1"
  by (rule round_half_even_unique) simp

lemma round_150_125: "round_half_even (\<bar>1201 / 8\<bar> * 100) = 15012"
  by (rule round_half_even_tie) simp_all

lemma round_150_1:
  "round_half_even (\<bar>5281174250533683 / 35184372088832\<bar> * 100) = 15010"
  by (rule round_half_even_unique) simp

lemma round_minus_1_25: "round_half_even (\<bar>- 5 / 4\<bar> * 100) = 125"
  by (rule round_half_even_unique) simp

lemma format_2f_100: "format_2f (Fin 100) = ''100.00''"
  by (simp only: format_2f.simps round_100) (simp add: eval_str)

lemma format_2f_12_3456: "format_2f (Fin (6949954944958149 / 562949953421312)) = ''12.35''"
  by (simp only: format_2f.simps round_12_3456) (simp add: eval_str)

lemma format_2f_0_005: "format_2f (Fin (5764607523034235 / 1152921504606846976)) = ''0.01''"
  by (simp only: format_2f.simps round_0_005) (simp add: eval_str)

lemma format_2f_150_125: "format_2f (Fin (1201 / 8)) = ''150.12''"
  by (simp only: format_2f.simps round_150_125) (simp add: eval_str)

lemma format_2f_150_1: "format_2f (Fin (5281174250533683 / 35184372088832)) = ''150.10''"
  by (simp only: format_2f.simps round_150_1) (simp add: eval_str)

lemma format_2f_minus_1_25: "format_2f (Fin (- 5 / 4)) = ''-1.25''"
  by (simp only: format_2f.simps round_minus_1_25) (simp add: eval_str)



subsection \<open>Texts with two decimal places\<close>

lemma is_digit_digit_char: "d < 10 \<Longrightarrow> is_digit (digit_char d)"
  by (simp add: is_digit_def digit_char_def)

lemma str_nat_digits: "c \<in> set (str_nat n) \<Longrightarrow> is_digit c"
proof (induction n arbitrary: c rule: str_nat.induct)
  case (1 n)
  show ?case
  proof (cases "n < 10")
    case True
    with "1.prems" show ?thesis
      by (simp add: str_nat.simps [of n] is_digit_digit_char)
  next
    case False
    with "1.prems" have "c \<in> set (str_nat (n div 10)) \<or> c = digit_char (n mod 10)"
      by (auto simp: str_nat.simps [of n])
    with False "1.IH" show ?thesis
      by (auto simp: is_digit_digit_char)
  qed
qed

lemma str_nat_nonempty: "str_nat n \<noteq> []"
  by (simp add: str_nat.simps [of n])

lemma not_digit_point: "\<not> is_digit CHR ''.''"
  by (simp add: is_digit_def)

lemma not_digit_minus: "\<not> is_digit CHR ''-''"
  by (simp add: is_digit_def)

lemma hundredths_split:
  "takeWhile is_digit (hundredths n) = str_nat (n div 100)
   \<and> dropWhile is_digit (hundredths n)
       = [CHR ''.'', digit_char (n div 10 mod 10), digit_char (n mod 10)]"
  by (simp add: hundredths_def takeWhile_append2 dropWhile_append2 str_nat_digits
      not_digit_point)

lemma hundredths_no_minus: "hundredths n = c # cs \<Longrightarrow> c \<noteq> CHR ''-''"
proof -
  assume h: "hundredths n = c # cs"
  obtain d ds where s: "str_nat (n div 100) = d # ds"
    using str_nat_nonempty [of "n div 100"] by (cases "str_nat (n div 100)") auto
  then have "is_digit d"
    using str_nat_digits [of d "n div 100"] by simp
  moreover from h s have "c = d"
    by (simp add: hundredths_def)
  ultimately show ?thesis
    using not_digit_minus by auto
qed

lemma two_decimals_unsigned:
  assumes "s = c # cs" and "c \<noteq> CHR ''-''"
  shows "two_decimals s
     = (takeWhile is_digit s \<noteq> [] \<and> length (dropWhile is_digit s) = 3
        \<and> hd (dropWhile is_digit s) = CHR ''.''
        \<and> is_digit (dropWhile is_digit s ! 1) \<and> is_digit (dropWhile is_digit s ! 2))"
  using assms by (simp add: two_decimals_def Let_def)

lemma two_decimals_signed:
  "two_decimals (CHR ''-'' # s)
     = (takeWhile is_digit s \<noteq> [] \<and> length (dropWhile is_digit s) = 3
        \<and> hd (dropWhile is_digit s) = CHR ''.''
        \<and> is_digit (dropWhile is_digit s ! 1) \<and> is_digit (dropWhile is_digit s ! 2))"
  by (simp add: two_decimals_def Let_def)

lemma two_decimals_hundredths: "two_decimals (hundredths n)"
proof -
  obtain c cs where h: "hundredths n = c # cs"
    by (cases "hundredths n") (auto simp: hundredths_def)
  then have "c \<noteq> CHR ''-''" by (rule hundredths_no_minus)
  from two_decimals_unsigned [OF h this] show ?thesis
    by (simp add: hundredths_split str_nat_nonempty is_digit_digit_char)
qed

lemma two_decimals_minus_hundredths: "two_decimals (CHR ''-'' # hundredths n)"
  by (simp add: two_decimals_signed hundredths_split str_nat_nonempty is_digit_digit_char)

lemma hundredths_zero: "hundredths 0 = ''0.00''"
  by (simp add: eval_str)


lemma of_char_digit_char: "d < 10 \<Longrightarrow> (of_char (digit_char d) :: nat) = 48 + d"
  by (simp add: digit_char_def)

lemma digits_value_snoc:
  "digits_value (xs @ [c]) = 10 * digits_value xs + (of_char c - 48)"
  by (simp add: digits_value_def)

lemma digits_value_str_nat: "digits_value (str_nat n) = n"
proof (induction n rule: str_nat.induct)
  case (1 n)
  show ?case
  proof (cases "n < 10")
    case True
    then show ?thesis
      by (simp add: str_nat.simps [of n] digits_value_def of_char_digit_char)
  next
    case False
    with "1.IH" have "digits_value (str_nat (n div 10)) = n div 10" by simp
    with False show ?thesis
      by (simp add: str_nat.simps [of n] digits_value_snoc of_char_digit_char)
  qed
qed

lemma filter_digits_str_nat: "filter is_digit (str_nat n) = str_nat n"
  by (simp add: str_nat_digits)

lemma digits_value_hundredths: "digits_value (filter is_digit (hundredths n)) = n"
proof -
  have "filter is_digit (hundredths n)
      = (str_nat (n div 100) @ [digit_char (n div 10 mod 10)]) @ [digit_char (n mod 10)]"
    by (simp add: hundredths_def filter_digits_str_nat not_digit_point is_digit_digit_char)
  then have "digits_value (filter is_digit (hundredths n))
      = 10 * (10 * (n div 100) + n div 10 mod 10) + n mod 10"
    by (simp only: digits_value_snoc digits_value_str_nat)
      (simp add: of_char_digit_char)
  also have "\<dots> = n"
  proof -
    have a: "n div 10 div 10 = n div 100" by (simp add: div_mult2_eq [symmetric])
    have b: "10 * (n div 10 div 10) + n div 10 mod 10 = n div 10" by simp
    have c: "10 * (n div 10) + n mod 10 = n" by simp
    from b have "10 * (n div 100) + n div 10 mod 10 = n div 10" unfolding a .
    then show ?thesis using c by simp
  qed
  finally show ?thesis .
qed

lemma reads_hundredths: "reads_as_hundredths (hundredths n) n"
  by (simp add: reads_as_hundredths_def two_decimals_hundredths digits_value_hundredths)

lemma reads_minus_hundredths: "reads_as_hundredths (CHR ''-'' # hundredths n) n"
  by (simp add: reads_as_hundredths_def two_decimals_minus_hundredths digits_value_hundredths
      not_digit_minus)

lemma round_half_even_nonneg: "0 \<le> q \<Longrightarrow> 0 \<le> round_half_even q"
  by (auto simp: round_half_even_def Let_def)

lemma round_half_even_ties_even:
  "\<bar>rat_of_int (round_half_even q) - q\<bar> = 1 / 2 \<Longrightarrow> even (round_half_even q)"
  using floor_bounds [of q] by (auto simp: round_half_even_def Let_def split: if_splits)

lemma nearest_ties_even_round:
  assumes "0 \<le> q"
  shows "nearest_ties_even q (nat (round_half_even q))"
proof -
  have "rat_of_nat (nat (round_half_even q)) = rat_of_int (round_half_even q)"
    using round_half_even_nonneg [OF assms] by simp
  moreover have "even (nat (round_half_even q)) = even (round_half_even q)"
    using round_half_even_nonneg [OF assms] by (simp add: even_nat_iff)
  ultimately show ?thesis
    using round_half_even_nearest [of q] round_half_even_ties_even [of q]
    by (simp add: nearest_ties_even_def)
qed

lemma nearest_ties_even_unique:
  assumes "nearest_ties_even q n" and "nearest_ties_even q m"
  shows "n = m"
proof (rule ccontr)
  assume d: "n \<noteq> m"
  have b: "\<bar>rat_of_nat n - q\<bar> \<le> 1 / 2" "\<bar>rat_of_nat m - q\<bar> \<le> 1 / 2"
    using assms by (simp_all add: nearest_ties_even_def)
  have r: "rat_of_nat n - rat_of_nat m = rat_of_int (int n - int m)" by simp
  from b have "\<bar>rat_of_nat n - rat_of_nat m\<bar> \<le> 1" by linarith
  then have "rat_of_int \<bar>int n - int m\<bar> \<le> rat_of_int 1"
    unfolding r by simp
  then have "\<bar>int n - int m\<bar> \<le> 1"
    unfolding of_int_le_iff .
  with d have s: "int n = int m + 1 \<or> int m = int n + 1" by linarith
  then have "rat_of_nat n = rat_of_nat m + 1 \<or> rat_of_nat m = rat_of_nat n + 1"
  proof
    assume "int n = int m + 1"
    then have "n = m + 1" by linarith
    then show ?thesis by simp
  next
    assume "int m = int n + 1"
    then have "m = n + 1" by linarith
    then show ?thesis by simp
  qed
  with b have "\<bar>rat_of_nat n - q\<bar> = 1 / 2 \<and> \<bar>rat_of_nat m - q\<bar> = 1 / 2" by linarith
  with assms have "even n \<and> even m" by (simp add: nearest_ties_even_def)
  with s show False by presburger
qed

lemma format_2f_reads:
  "reads_as_hundredths (format_2f (Fin x)) (nat (round_half_even (\<bar>x\<bar> * 100)))"
  by (simp add: reads_hundredths reads_minus_hundredths)

lemma format_2f_sign: "(hd (format_2f (Fin x)) = CHR ''-'') = (x < 0)"
proof (cases "x < 0")
  case True
  then show ?thesis by simp
next
  case False
  obtain c cs where h: "hundredths (nat (round_half_even (\<bar>x\<bar> * 100))) = c # cs"
    by (cases "hundredths (nat (round_half_even (\<bar>x\<bar> * 100)))") (auto simp: hundredths_def)
  from hundredths_no_minus [OF h] h False show ?thesis by simp
qed

lemma round_half_even_unique_tie_up:
  assumes "q = rat_of_int n - 1 / 2" and "even n"
  shows "round_half_even q = n"
proof -
  have "\<lfloor>q\<rfloor> = n - 1" using assms(1) by (simp add: floor_unique)
  then show ?thesis using assms by (simp add: round_half_even_def Let_def)
qed

lemma round_0_375: "round_half_even (\<bar>3 / 8\<bar> * 100) = 38"
  by (rule round_half_even_unique_tie_up) simp_all

lemma format_2f_0_375: "format_2f (Fin (3 / 8)) = ''0.38''"
  by (simp only: format_2f.simps round_0_375) (simp add: eval_str)

subsection \<open>The handler\<close>

lemma except_Exception_Exception:
  "fst r = Inl (Exception msg) \<Longrightarrow> except_Exception prefix r = (Inr (prefix @ msg), snd r)"
  by (simp add: except_Exception_def)

lemma except_Exception_BaseException:
  "fst r = Inl (BaseException name) \<Longrightarrow> except_Exception prefix r = (Inl (BaseException name), snd r)"
  by (simp add: except_Exception_def)

lemma except_Exception_value:
  "fst r = Inr s \<Longrightarrow> except_Exception prefix r = (Inr s, snd r)"
  by (simp add: except_Exception_def)

lemma except_Exception_trace: "snd (except_Exception prefix r) = snd r"
  by (simp add: except_Exception_def split: sum.splits exn.splits)



lemma call_tool_handler:
  "call_tool g w n i = except_Exception (''Error '' @ doing i @ '': '') (body w n i)"
  by (cases i)
    (simp_all add: get_account_info_def get_positions_def get_stock_quote_def get_stock_bars_def
      get_orders_def place_market_order_def place_limit_order_def cancel_all_orders_def
      close_all_positions_def)

lemma body_construction_raises: "construction_raises w i e \<Longrightarrow> body w n i = (Inl e, [])"
  by (cases i)
    (simp_all add: construction_raises_def get_account_info_body_def get_positions_body_def
      get_positions_with_def get_stock_quote_body_def get_stock_bars_body_def get_orders_body_def
      place_market_order_body_def place_limit_order_body_def cancel_all_orders_body_def
      close_all_positions_body_def)

subsection \<open>Where a rendering raises\<close>

lemma first_error_append:
  "first_error (rs @ rs') = (case first_error rs of Some e \<Rightarrow> Some e | None \<Rightarrow> first_error rs')"
  by (induction rs rule: first_error.induct) simp_all


lemma for_each_returns:
  "first_error (map block xs) = None
   \<Longrightarrow> for_each block result xs
       = Inr (foldl (\<lambda>text x. text @ (case block x of Inr s \<Rightarrow> s | Inl e \<Rightarrow> [])) result xs)"
  by (induction xs arbitrary: result) (auto split: sum.splits)








subsection \<open>Every exception of a tool, where it arises\<close>






















text \<open>
  The three sources at concrete calls: a constructor that refuses an empty key, a
  backend that refuses the order and an account without cash figure (both behind the
  key \<open>PK2\<close>).
\<close>

lemma lower_buy: "lower ''buy'' = ''buy''"
  by (simp add: lower_def lower_char_def)

lemma demo_new_trading_client:
  "new_TradingClient demo_env ''PK1'' ''S1'' p = Inr demo_trading_client"
  "new_TradingClient demo_env ''PK2'' ''S2'' p = Inr failing_client"
  "new_TradingClient demo_env ''PK3'' ''S3'' p = Inr interrupted_client"
  "new_TradingClient demo_env [] ''S1'' p
     = Inl (Exception ''You must supply a method of authentication'')"
  by (simp_all add: demo_env_def)



subsection \<open>Positions\<close>

text \<open>
  Claim C3. Whatever the credentials, when the client is built and its list of
  positions is empty, \<open>get_positions\<close> returns exactly \<open>No open positions found.\<close>
  after the one call on the client it built. The rendering of a position plays no
  part: the same holds with any rendering in its place, also one that always raises.
\<close>

theorem get_positions_empty:
  assumes "new_TradingClient w api_key api_secret paper = Inr client"
    and "tc_get_all_positions client = Inr []"
  shows "get_positions g w n api_key api_secret paper
           = (Inr ''No open positions found.'',
              [New_TradingClient n api_key api_secret paper, On n Get_all_positions])
       \<and> (\<forall>block. get_positions_with block w n api_key api_secret paper
              = (Inr ''No open positions found.'',
                 [New_TradingClient n api_key api_secret paper, On n Get_all_positions]))"
  using assms
  by (simp add: get_positions_def get_positions_body_def get_positions_with_def
      except_Exception_def)

theorem get_positions_empty_witness:
  "new_TradingClient demo_env ''PK1'' ''S1'' True = Inr demo_trading_client
   \<and> tc_get_all_positions demo_trading_client = Inr []
   \<and> get_positions demo_globals demo_env 2 ''PK1'' ''S1'' True
       = (Inr ''No open positions found.'',
          [New_TradingClient 2 ''PK1'' ''S1'' True, On 2 Get_all_positions])
   \<and> get_positions_with (\<lambda>p. Inl (Exception ''unused'')) demo_env 2 ''PK1'' ''S1'' True
       = (Inr ''No open positions found.'',
          [New_TradingClient 2 ''PK1'' ''S1'' True, On 2 Get_all_positions])"
proof -
  have c: "new_TradingClient demo_env ''PK1'' ''S1'' True = Inr demo_trading_client"
    by (rule demo_new_trading_client)
  have p: "tc_get_all_positions demo_trading_client = Inr []"
    by (simp add: demo_trading_client_def)
  from get_positions_empty [OF c p, of demo_globals 2] c p show ?thesis by simp
qed

subsection \<open>Account\<close>

text \<open>
  Claim C10. When the account the backend returns has no attribute \<open>daytrade_count\<close>,
  the body fails exactly when it would fail with the attribute present, so the absence
  brings no failure of its own; and when the six amounts convert to floats,
  \<open>get_account_info\<close> returns the account block whose last field reads
  \<open>Day Trades Remaining: Unknown\<close>.
\<close>

theorem daytrade_count_absent:
  assumes "new_TradingClient w api_key api_secret paper = Inr client"
    and "tc_get_account client = Inr a"
    and "daytrade_count a = Absent"
  shows "(\<forall>d e. (fst (get_account_info_body w n api_key api_secret paper) = Inl e)
            = (format_account (float_of_str w) (a\<lparr>daytrade_count := Present d\<rparr>) = Inl e))
       \<and> (\<forall>bp c pv eq lmv smv.
            py_float (float_of_str w) (buying_power a) = Inr bp
          \<and> py_float (float_of_str w) (cash a) = Inr c
          \<and> py_float (float_of_str w) (portfolio_value a) = Inr pv
          \<and> py_float (float_of_str w) (equity a) = Inr eq
          \<and> py_float (float_of_str w) (long_market_value a) = Inr lmv
          \<and> py_float (float_of_str w) (short_market_value a) = Inr smv
          \<longrightarrow> fst (get_account_info g w n api_key api_secret paper)
              = Inr (''\<newline>Account Information:\<newline>-------------------\<newline>''
                @ ''Account ID: '' @ acc_id a @ ''\<newline>''
                @ ''Status: '' @ acc_status a @ ''\<newline>''
                @ ''Currency: '' @ acc_currency a @ ''\<newline>''
                @ ''Buying Power: $'' @ format_2f bp @ ''\<newline>''
                @ ''Cash: $'' @ format_2f c @ ''\<newline>''
                @ ''Portfolio Value: $'' @ format_2f pv @ ''\<newline>''
                @ ''Equity: $'' @ format_2f eq @ ''\<newline>''
                @ ''Long Market Value: $'' @ format_2f lmv @ ''\<newline>''
                @ ''Short Market Value: $'' @ format_2f smv @ ''\<newline>''
                @ ''Pattern Day Trader: '' @ (if pattern_day_trader a then ''Yes'' else ''No'')
                @ ''\<newline>Day Trades Remaining: Unknown\<newline>''))"
proof (intro conjI allI impI)
  fix d e
  show "(fst (get_account_info_body w n api_key api_secret paper) = Inl e)
      = (format_account (float_of_str w) (a\<lparr>daytrade_count := Present d\<rparr>) = Inl e)"
    using assms
    by (simp add: get_account_info_body_def format_account_def and_then_def split: sum.splits)
next
  fix bp c pv eq lmv smv
  assume "py_float (float_of_str w) (buying_power a) = Inr bp
          \<and> py_float (float_of_str w) (cash a) = Inr c
          \<and> py_float (float_of_str w) (portfolio_value a) = Inr pv
          \<and> py_float (float_of_str w) (equity a) = Inr eq
          \<and> py_float (float_of_str w) (long_market_value a) = Inr lmv
          \<and> py_float (float_of_str w) (short_market_value a) = Inr smv"
  with assms show "fst (get_account_info g w n api_key api_secret paper)
              = Inr (''\<newline>Account Information:\<newline>-------------------\<newline>''
                @ ''Account ID: '' @ acc_id a @ ''\<newline>''
                @ ''Status: '' @ acc_status a @ ''\<newline>''
                @ ''Currency: '' @ acc_currency a @ ''\<newline>''
                @ ''Buying Power: $'' @ format_2f bp @ ''\<newline>''
                @ ''Cash: $'' @ format_2f c @ ''\<newline>''
                @ ''Portfolio Value: $'' @ format_2f pv @ ''\<newline>''
                @ ''Equity: $'' @ format_2f eq @ ''\<newline>''
                @ ''Long Market Value: $'' @ format_2f lmv @ ''\<newline>''
                @ ''Short Market Value: $'' @ format_2f smv @ ''\<newline>''
                @ ''Pattern Day Trader: '' @ (if pattern_day_trader a then ''Yes'' else ''No'')
                @ ''\<newline>Day Trades Remaining: Unknown\<newline>'')"
    by (simp add: get_account_info_def get_account_info_body_def format_account_def
        and_then_def except_Exception_def money_def)
qed

theorem daytrade_count_absent_witness:
  "new_TradingClient demo_env ''PK1'' ''S1'' True = Inr demo_trading_client
   \<and> tc_get_account demo_trading_client = Inr demo_account
   \<and> daytrade_count demo_account = Absent
   \<and> fst (get_account_info demo_globals demo_env 2 ''PK1'' ''S1'' True)
       = Inr (''\<newline>Account Information:\<newline>-------------------\<newline>''
         @ ''Account ID: 4f1d\<newline>Status: ACTIVE\<newline>Currency: USD\<newline>''
         @ ''Buying Power: $100.00\<newline>Cash: $12.35\<newline>Portfolio Value: $0.01\<newline>''
         @ ''Equity: $150.12\<newline>Long Market Value: $-0.00\<newline>''
         @ ''Short Market Value: $-1.25\<newline>Pattern Day Trader: No\<newline>''
         @ ''Day Trades Remaining: Unknown\<newline>'')"
proof -
  have c: "new_TradingClient demo_env ''PK1'' ''S1'' True = Inr demo_trading_client"
    by (rule demo_new_trading_client)
  have a: "tc_get_account demo_trading_client = Inr demo_account"
    by (simp add: demo_trading_client_def)
  have d: "daytrade_count demo_account = Absent"
    by (simp add: demo_account_def)
  have f: "py_float (float_of_str demo_env) (buying_power demo_account) = Inr (Fin 100)
         \<and> py_float (float_of_str demo_env) (cash demo_account)
             = Inr (Fin (6949954944958149 / 562949953421312))
         \<and> py_float (float_of_str demo_env) (portfolio_value demo_account)
             = Inr (Fin (5764607523034235 / 1152921504606846976))
         \<and> py_float (float_of_str demo_env) (equity demo_account) = Inr (Fin (1201 / 8))
         \<and> py_float (float_of_str demo_env) (long_market_value demo_account) = Inr NegZero
         \<and> py_float (float_of_str demo_env) (short_market_value demo_account)
             = Inr (Fin (- 5 / 4))"
    by (simp add: demo_account_def)
  note r = daytrade_count_absent [OF c a d, of 2 demo_globals, THEN conjunct2, rule_format, OF f]
  have v: "acc_id demo_account = ''4f1d''" "acc_status demo_account = ''ACTIVE''"
    "acc_currency demo_account = ''USD''" "pattern_day_trader demo_account = False"
    by (simp_all add: demo_account_def)
  have "fst (get_account_info demo_globals demo_env 2 ''PK1'' ''S1'' True)
       = Inr (''\<newline>Account Information:\<newline>-------------------\<newline>''
         @ ''Account ID: 4f1d\<newline>Status: ACTIVE\<newline>Currency: USD\<newline>''
         @ ''Buying Power: $100.00\<newline>Cash: $12.35\<newline>Portfolio Value: $0.01\<newline>''
         @ ''Equity: $150.12\<newline>Long Market Value: $-0.00\<newline>''
         @ ''Short Market Value: $-1.25\<newline>Pattern Day Trader: No\<newline>''
         @ ''Day Trades Remaining: Unknown\<newline>'')"
    by (simp only: r v format_2f_100 format_2f_12_3456 format_2f_0_005 format_2f_150_125
        format_2f_minus_1_25 format_2f.simps(2)) simp
  with c a d show ?thesis by (simp only: simp_thms)
qed

subsection \<open>Orders\<close>

lemma lower_hold: "lower ''hold'' = ''hold''"
  by (simp add: lower_def lower_char_def)


text \<open>
  Claim C2, as amended. When the lower-case form of \<open>side\<close> is neither \<open>buy\<close> nor
  \<open>sell\<close>, \<open>place_market_order\<close> makes no call on a client, whatever the credentials.
  When the client could be built from the credentials, it returns exactly the
  invalid-side sentence and leaves nothing but that client behind. When the
  constructor raises an \<open>Exception\<close>, it returns the error text of the construction,
  and when the constructor raises another exception, so does the tool: the client is
  built before the side is looked at.
\<close>

theorem place_market_order_invalid_side:
  assumes "lower side \<noteq> ''buy''" and "lower side \<noteq> ''sell''"
  shows "(\<forall>ev \<in> set (snd (place_market_order g w n symbol side quantity api_key api_secret paper)).
            is_construction ev)
       \<and> (\<forall>client. new_TradingClient w api_key api_secret paper = Inr client
            \<longrightarrow> place_market_order g w n symbol side quantity api_key api_secret paper
                = (Inr (''Invalid order side: '' @ side @ ''. Must be 'buy' or 'sell'.''),
                   [New_TradingClient n api_key api_secret paper]))
       \<and> (\<forall>msg. new_TradingClient w api_key api_secret paper = Inl (Exception msg)
            \<longrightarrow> place_market_order g w n symbol side quantity api_key api_secret paper
                = (Inr (''Error placing market order: '' @ msg), []))
       \<and> (\<forall>name. new_TradingClient w api_key api_secret paper = Inl (BaseException name)
            \<longrightarrow> place_market_order g w n symbol side quantity api_key api_secret paper
                = (Inl (BaseException name), []))"
  using assms
  by (simp add: place_market_order_def place_market_order_body_def except_Exception_def
      invalid_side_def split: sum.splits exn.splits)

theorem place_market_order_invalid_side_witness:
  "lower ''hold'' \<noteq> ''buy'' \<and> lower ''hold'' \<noteq> ''sell''
   \<and> new_TradingClient demo_env ''PK1'' ''S1'' True = Inr demo_trading_client
   \<and> place_market_order demo_globals demo_env 2 ''AAPL'' ''hold'' (Fin 1) ''PK1'' ''S1'' True
       = (Inr ''Invalid order side: hold. Must be 'buy' or 'sell'.'',
          [New_TradingClient 2 ''PK1'' ''S1'' True])
   \<and> is_construction (New_TradingClient 2 ''PK1'' ''S1'' True)"
proof -
  have b: "lower ''hold'' \<noteq> ''buy''" and s: "lower ''hold'' \<noteq> ''sell''"
    by (simp_all add: lower_hold)
  have c: "new_TradingClient demo_env ''PK1'' ''S1'' True = Inr demo_trading_client"
    by (rule demo_new_trading_client)
  note t = place_market_order_invalid_side [OF b s, of demo_globals demo_env 2 "''AAPL''" "Fin 1"
      "''PK1''" "''S1''" True]
  from t c
  have r: "place_market_order demo_globals demo_env 2 ''AAPL'' ''hold'' (Fin 1) ''PK1'' ''S1'' True
       = (Inr ''Invalid order side: hold. Must be 'buy' or 'sell'.'',
          [New_TradingClient 2 ''PK1'' ''S1'' True])"
    by simp
  from t have "\<forall>ev \<in> set (snd (place_market_order demo_globals demo_env 2 ''AAPL'' ''hold'' (Fin 1)
                                  ''PK1'' ''S1'' True)). is_construction ev"
    by (rule conjunct1)
  then have "is_construction (New_TradingClient 2 ''PK1'' ''S1'' True)"
    unfolding r by simp
  with b s c r show ?thesis by simp
qed

text \<open>
  The claim as it was stated fails for credentials the constructor refuses: with an
  empty key and the side \<open>hold\<close> the answer is the error text of the construction.
\<close>

theorem place_market_order_invalid_side_counterexample:
  "lower ''hold'' \<noteq> ''buy'' \<and> lower ''hold'' \<noteq> ''sell''
   \<and> fst (place_market_order demo_globals demo_env 2 ''AAPL'' ''hold'' (Fin 1) [] ''S1'' True)
       = Inr ''Error placing market order: You must supply a method of authentication''
   \<and> fst (place_market_order demo_globals demo_env 2 ''AAPL'' ''hold'' (Fin 1) [] ''S1'' True)
       \<noteq> Inr ''Invalid order side: hold. Must be 'buy' or 'sell'.''"
  by (simp add: lower_hold place_market_order_def place_market_order_body_def
      except_Exception_def demo_new_trading_client)




text \<open>
  Claim C6, as amended. An order that \<open>place_market_order\<close> or \<open>place_limit_order\<close>
  submits, on whatever client, carries the quantity the caller gave, unchanged. The
  tools do not look at the sign of the quantity: the quantity submitted is strictly
  positive exactly when the caller's is.
\<close>

theorem submitted_quantity:
  "(On h (Submit_order r)
      \<in> set (snd (place_market_order g w n symbol side quantity api_key api_secret paper))
      \<longrightarrow> request_qty r = quantity)
   \<and> (On h (Submit_order r)
        \<in> set (snd (place_limit_order g w n symbol side quantity limit api_key api_secret paper))
      \<longrightarrow> request_qty r = quantity)"
  by (auto simp: place_market_order_def place_market_order_body_def place_limit_order_def
      place_limit_order_body_def except_Exception_def Let_def
      split: sum.splits option.splits if_splits exn.splits)

lemma demo_market_order:
  "place_market_order demo_globals demo_env n ''AAPL'' ''buy'' q ''PK1'' ''S1'' True
     = (Inr (format_market_order demo_order),
        [New_TradingClient n ''PK1'' ''S1'' True,
         On n (Submit_order (MarketOrderRequest ''AAPL'' q BUY DAY))])"
  by (simp add: place_market_order_def place_market_order_body_def except_Exception_def
      demo_new_trading_client demo_trading_client_def lower_buy)

theorem submitted_quantity_witness:
  "On 2 (Submit_order (MarketOrderRequest ''AAPL'' (Fin 10) BUY DAY))
     \<in> set (snd (place_market_order demo_globals demo_env 2 ''AAPL'' ''buy'' (Fin 10)
                   ''PK1'' ''S1'' True))
   \<and> request_qty (MarketOrderRequest ''AAPL'' (Fin 10) BUY DAY) = Fin 10
   \<and> positive (Fin 10)"
proof -
  have m: "On 2 (Submit_order (MarketOrderRequest ''AAPL'' (Fin 10) BUY DAY))
     \<in> set (snd (place_market_order demo_globals demo_env 2 ''AAPL'' ''buy'' (Fin 10)
                   ''PK1'' ''S1'' True))"
    by (simp add: demo_market_order)
  from submitted_quantity [of 2 "MarketOrderRequest ''AAPL'' (Fin 10) BUY DAY" demo_globals
      demo_env 2 "''AAPL''" "''buy''" "Fin 10" "''PK1''" "''S1''" True] m
  have "request_qty (MarketOrderRequest ''AAPL'' (Fin 10) BUY DAY) = Fin 10"
    by blast
  with m show ?thesis by simp
qed

text \<open>
  The claim as it was stated fails: a market order for the quantity \<open>-1\<close> is submitted
  as it is.
\<close>

theorem submitted_quantity_counterexample:
  "snd (place_market_order demo_globals demo_env 2 ''AAPL'' ''buy'' (Fin (- 1)) ''PK1'' ''S1'' True)
     = [New_TradingClient 2 ''PK1'' ''S1'' True,
        On 2 (Submit_order (MarketOrderRequest ''AAPL'' (Fin (- 1)) BUY DAY))]
   \<and> \<not> positive (request_qty (MarketOrderRequest ''AAPL'' (Fin (- 1)) BUY DAY))"
  by (simp add: demo_market_order)

subsection \<open>What a rendering returns\<close>

lemma for_each_texts:
  assumes "\<And>x. x \<in> set xs \<Longrightarrow> block x = Inr (text x)"
  shows "for_each block result xs = Inr (foldl (\<lambda>acc x. acc @ text x) result xs)"
  using assms by (induction xs arbitrary: result) simp_all

lemma first_error_concat:
  "first_error (map f (concat (map am xs))) = None \<Longrightarrow> x \<in> set xs
   \<Longrightarrow> first_error (map f (am x)) = None"
  by (induction xs) (auto simp: first_error_append split: option.splits)

lemma format_account_returns:
  "first_error (map (py_float parse) (account_amounts a)) = None
   \<Longrightarrow> format_account parse a
       = Inr (''\<newline>Account Information:\<newline>-------------------\<newline>''
          @ ''Account ID: '' @ acc_id a @ ''\<newline>''
          @ ''Status: '' @ acc_status a @ ''\<newline>''
          @ ''Currency: '' @ acc_currency a @ ''\<newline>''
          @ ''Buying Power: $'' @ format_2f (amount parse (buying_power a)) @ ''\<newline>''
          @ ''Cash: $'' @ format_2f (amount parse (cash a)) @ ''\<newline>''
          @ ''Portfolio Value: $'' @ format_2f (amount parse (portfolio_value a)) @ ''\<newline>''
          @ ''Equity: $'' @ format_2f (amount parse (equity a)) @ ''\<newline>''
          @ ''Long Market Value: $'' @ format_2f (amount parse (long_market_value a)) @ ''\<newline>''
          @ ''Short Market Value: $'' @ format_2f (amount parse (short_market_value a)) @ ''\<newline>''
          @ ''Pattern Day Trader: '' @ (if pattern_day_trader a then ''Yes'' else ''No'') @ ''\<newline>''
          @ ''Day Trades Remaining: ''
          @ (case daytrade_count a of Present d \<Rightarrow> d | Absent \<Rightarrow> ''Unknown'')
          @ ''\<newline>'')"
  by (auto simp: format_account_def and_then_def account_amounts_def amount_def money_def
      split: sum.splits)

lemma format_position_returns:
  "first_error (map (py_float parse) (position_amounts q)) = None
   \<Longrightarrow> format_position parse q
       = Inr (''\<newline>Symbol: '' @ pos_symbol q @ ''\<newline>''
          @ ''Quantity: '' @ pos_qty q @ '' shares\<newline>''
          @ ''Market Value: $'' @ format_2f (amount parse (market_value q)) @ ''\<newline>''
          @ ''Average Entry Price: $'' @ format_2f (amount parse (avg_entry_price q)) @ ''\<newline>''
          @ ''Current Price: $'' @ format_2f (amount parse (current_price q)) @ ''\<newline>''
          @ ''Unrealized P/L: $'' @ format_2f (amount parse (unrealized_pl q))
          @ '' ('' @ format_2f (times_100 (amount parse (unrealized_plpc q))) @ ''%)\<newline>''
          @ ''-------------------\<newline>'')"
  by (auto simp: format_position_def and_then_def position_amounts_def amount_def money_def
      split: sum.splits)

lemma format_order_returns:
  "first_error (map (py_float parse) (order_amounts ord)) = None
   \<Longrightarrow> format_order parse ord
       = Inr (''\<newline>Symbol: '' @ ord_symbol ord @ ''\<newline>''
          @ ''ID: '' @ ord_id ord @ ''\<newline>''
          @ ''Type: '' @ ord_type ord @ ''\<newline>''
          @ ''Side: '' @ ord_side ord @ ''\<newline>''
          @ ''Quantity: '' @ ord_qty ord @ ''\<newline>''
          @ ''Status: '' @ ord_status ord @ ''\<newline>''
          @ ''Submitted At: '' @ ord_submitted_at ord @ ''\<newline>''
          @ (case filled_at ord of
               Present (Some t) \<Rightarrow> ''Filled At: '' @ t @ ''\<newline>''
             | _ \<Rightarrow> '''')
          @ (case filled_avg_price ord of
               Present v \<Rightarrow>
                 if truthy v then ''Filled Price: $'' @ format_2f (amount parse v) @ ''\<newline>''
                 else ''''
             | Absent \<Rightarrow> '''')
          @ ''-----------------------------------\<newline>'')"
  by (auto simp: format_order_def and_then_def order_amounts_def amount_def money_def Let_def
      split: sum.splits attribute.splits option.splits)

lemma get_stock_bars_body_rendered:
  assumes "new_StockHistoricalDataClient w k s = Inr sc"
    and "minus_days (now w) days = Inr t"
    and "sc_get_stock_bars sc
           \<lparr>symbol_or_symbols = symbol, timeframe = Day, start = Some t, end_time = None\<rparr>
         = Inr bars"
    and "bs_contains bars symbol" and "bs_getitem bars symbol = Inr bs" and "bs \<noteq> []"
  shows "get_stock_bars_body w n symbol k s days
       = (for_each format_bar (bars_header symbol days) bs,
          [New_StockHistoricalDataClient n k s,
           On n (Get_stock_bars
                  \<lparr>symbol_or_symbols = symbol, timeframe = Day, start = Some t,
                   end_time = None\<rparr>)])"
proof -
  from assms(6) obtain b' bs' where l: "bs = b' # bs'" by (cases bs) auto
  from assms(1-5) show ?thesis
    unfolding l
    by (simp add: get_stock_bars_body_def Let_def del: for_each.simps)
qed

subsection \<open>Two decimal places\<close>

lemma format_2f_two_decimals:
  "is_finite f \<longrightarrow> two_decimals (format_2f f)"
proof (cases f)
  case (Fin y)
  then show ?thesis
    by (simp add: two_decimals_hundredths two_decimals_minus_hundredths)
next
  case NegZero
  have "two_decimals (CHR ''-'' # hundredths 0)"
    by (rule two_decimals_minus_hundredths)
  with NegZero show ?thesis
    by (simp add: hundredths_zero)
qed simp_all

lemma format_2f_nearest:
  "nearest_ties_even (\<bar>y\<bar> * 100) (digits_value (filter is_digit (format_2f (Fin y))))"
proof -
  have "digits_value (filter is_digit (format_2f (Fin y))) = nat (round_half_even (\<bar>y\<bar> * 100))"
    using format_2f_reads [of y] by (simp add: reads_as_hundredths_def)
  moreover have "nearest_ties_even (\<bar>y\<bar> * 100) (nat (round_half_even (\<bar>y\<bar> * 100)))"
    by (rule nearest_ties_even_round) simp
  ultimately show ?thesis by simp
qed

lemma nearest_ties_even_determines:
  "nearest_ties_even z m \<and> nearest_ties_even z m' \<longrightarrow> m = m'"
  using nearest_ties_even_unique by blast

lemma format_2f_NegZero:
  "format_2f NegZero = ''-0.00''"
  by simp

lemma money_100:
  "money (Fin 100) = ''$100.00''"
  by (simp only: money_def format_2f_100) simp

lemma money_12_3456:
  "money (Fin (6949954944958149 / 562949953421312)) = ''$12.35''"
  by (simp only: money_def format_2f_12_3456) simp

lemma money_0_005:
  "money (Fin (5764607523034235 / 1152921504606846976)) = ''$0.01''"
  by (simp only: money_def format_2f_0_005) simp

lemma money_0_375:
  "money (Fin (3 / 8)) = ''$0.38''"
  by (simp only: money_def format_2f_0_375) simp

lemma format_2f_not_finite:
  "\<not> is_finite f \<longrightarrow> format_2f f \<in> {''inf'', ''-inf'', ''nan''}"
  by (cases f) simp_all

lemma get_account_info_text:
  "new_TradingClient w k s p = Inr tc
   \<and> tc_get_account tc = Inr a
   \<and> first_error (map (py_float (float_of_str w)) (account_amounts a)) = None
   \<longrightarrow> fst (get_account_info g w n k s p)
        = Inr (''\<newline>Account Information:\<newline>-------------------\<newline>''
             @ ''Account ID: '' @ acc_id a @ ''\<newline>''
             @ ''Status: '' @ acc_status a @ ''\<newline>''
             @ ''Currency: '' @ acc_currency a @ ''\<newline>''
             @ ''Buying Power: $'' @ format_2f (amount (float_of_str w) (buying_power a)) @ ''\<newline>''
             @ ''Cash: $'' @ format_2f (amount (float_of_str w) (cash a)) @ ''\<newline>''
             @ ''Portfolio Value: $'' @ format_2f (amount (float_of_str w) (portfolio_value a)) @ ''\<newline>''
             @ ''Equity: $'' @ format_2f (amount (float_of_str w) (equity a)) @ ''\<newline>''
             @ ''Long Market Value: $'' @ format_2f (amount (float_of_str w) (long_market_value a)) @ ''\<newline>''
             @ ''Short Market Value: $'' @ format_2f (amount (float_of_str w) (short_market_value a)) @ ''\<newline>''
             @ ''Pattern Day Trader: '' @ (if pattern_day_trader a then ''Yes'' else ''No'') @ ''\<newline>''
             @ ''Day Trades Remaining: ''
             @ (case daytrade_count a of Present d \<Rightarrow> d | Absent \<Rightarrow> ''Unknown'')
             @ ''\<newline>'')"
  by (simp add: get_account_info_def get_account_info_body_def except_Exception_def
      format_account_returns)

lemma get_positions_text:
  "new_TradingClient w k s p = Inr tc
   \<and> tc_get_all_positions tc = Inr ps
   \<and> ps \<noteq> []
   \<and> first_error (map (py_float (float_of_str w)) (concat (map position_amounts ps))) = None
   \<longrightarrow> fst (get_positions g w n k s p)
        = Inr (foldl (\<lambda>text x. text
                     @ ''\<newline>Symbol: '' @ pos_symbol x @ ''\<newline>''
                     @ ''Quantity: '' @ pos_qty x @ '' shares\<newline>''
                     @ ''Market Value: $'' @ format_2f (amount (float_of_str w) (market_value x)) @ ''\<newline>''
                     @ ''Average Entry Price: $'' @ format_2f (amount (float_of_str w) (avg_entry_price x)) @ ''\<newline>''
                     @ ''Current Price: $'' @ format_2f (amount (float_of_str w) (current_price x)) @ ''\<newline>''
                     @ ''Unrealized P/L: $'' @ format_2f (amount (float_of_str w) (unrealized_pl x))
                     @ '' ('' @ format_2f (times_100 (amount (float_of_str w) (unrealized_plpc x))) @ ''%)\<newline>''
                     @ ''-------------------\<newline>'')
               (''Current Positions:\<newline>-------------------\<newline>'')
               ps)"
proof (intro impI, elim conjE)
  assume c: "new_TradingClient w k s p = Inr tc" and a: "tc_get_all_positions tc = Inr ps"
    and n: "ps \<noteq> []"
    and f: "first_error (map (py_float (float_of_str w)) (concat (map position_amounts ps))) = None"
  have r: "for_each (format_position (float_of_str w)) result ps
             = Inr (foldl (\<lambda>text x. text
                     @ ''\<newline>Symbol: '' @ pos_symbol x @ ''\<newline>''
                     @ ''Quantity: '' @ pos_qty x @ '' shares\<newline>''
                     @ ''Market Value: $'' @ format_2f (amount (float_of_str w) (market_value x)) @ ''\<newline>''
                     @ ''Average Entry Price: $'' @ format_2f (amount (float_of_str w) (avg_entry_price x)) @ ''\<newline>''
                     @ ''Current Price: $'' @ format_2f (amount (float_of_str w) (current_price x)) @ ''\<newline>''
                     @ ''Unrealized P/L: $'' @ format_2f (amount (float_of_str w) (unrealized_pl x))
                     @ '' ('' @ format_2f (times_100 (amount (float_of_str w) (unrealized_plpc x))) @ ''%)\<newline>''
                     @ ''-------------------\<newline>'')
               (result)
               ps)" for result
    by (rule for_each_texts) (simp add: format_position_returns first_error_concat [OF f])
  from c a n show "fst (get_positions g w n k s p)
        = Inr (foldl (\<lambda>text x. text
                     @ ''\<newline>Symbol: '' @ pos_symbol x @ ''\<newline>''
                     @ ''Quantity: '' @ pos_qty x @ '' shares\<newline>''
                     @ ''Market Value: $'' @ format_2f (amount (float_of_str w) (market_value x)) @ ''\<newline>''
                     @ ''Average Entry Price: $'' @ format_2f (amount (float_of_str w) (avg_entry_price x)) @ ''\<newline>''
                     @ ''Current Price: $'' @ format_2f (amount (float_of_str w) (current_price x)) @ ''\<newline>''
                     @ ''Unrealized P/L: $'' @ format_2f (amount (float_of_str w) (unrealized_pl x))
                     @ '' ('' @ format_2f (times_100 (amount (float_of_str w) (unrealized_plpc x))) @ ''%)\<newline>''
                     @ ''-------------------\<newline>'')
               (''Current Positions:\<newline>-------------------\<newline>'')
               ps)"
    by (simp add: get_positions_def get_positions_body_def get_positions_with_def
        except_Exception_def r)
qed

lemma get_stock_quote_text:
  "new_StockHistoricalDataClient w k s = Inr sc
   \<and> sc_get_stock_latest_quote sc symbol = Inr quotes
   \<and> quotes symbol = Some qu
   \<longrightarrow> fst (get_stock_quote g w n symbol k s)
        = Inr (''\<newline>Latest Quote for '' @ symbol @ '':\<newline>------------------------\<newline>''
             @ ''Ask Price: $'' @ format_2f (ask_price qu) @ ''\<newline>''
             @ ''Bid Price: $'' @ format_2f (bid_price qu) @ ''\<newline>''
             @ ''Ask Size: '' @ ask_size qu @ ''\<newline>''
             @ ''Bid Size: '' @ bid_size qu @ ''\<newline>''
             @ ''Timestamp: '' @ quote_timestamp qu @ ''\<newline>'')"
  by (simp add: get_stock_quote_def get_stock_quote_body_def except_Exception_def
      format_quote_def money_def)

lemma get_stock_bars_text:
  "new_StockHistoricalDataClient w k s = Inr sc
   \<and> minus_days (now w) days = Inr t
   \<and> sc_get_stock_bars sc
          \<lparr>symbol_or_symbols = symbol, timeframe = Day, start = Some t,
          end_time = None\<rparr> = Inr bars
   \<and> bs_contains bars symbol
   \<and> bs_getitem bars symbol = Inr bs
   \<and> bs \<noteq> []
   \<longrightarrow> fst (get_stock_bars g w n symbol k s days)
        = Inr (foldl (\<lambda>text x. text
                     @ ''Date: '' @ bar_date x
                     @ '', Open: $'' @ format_2f (bar_open x)
                     @ '', High: $'' @ format_2f (bar_high x)
                     @ '', Low: $'' @ format_2f (bar_low x)
                     @ '', Close: $'' @ format_2f (bar_close x)
                     @ '', Volume: '' @ bar_volume x @ ''\<newline>'')
               (''Historical Data for '' @ symbol @ '' (Last '' @ str_int days
                @ '' trading days):\<newline>''
                @ ''---------------------------------------------------\<newline>'')
               bs)"
proof (intro impI, elim conjE)
  assume c: "new_StockHistoricalDataClient w k s = Inr sc"
    and m: "minus_days (now w) days = Inr t"
    and a: "sc_get_stock_bars sc
              \<lparr>symbol_or_symbols = symbol, timeframe = Day, start = Some t, end_time = None\<rparr>
            = Inr bars"
    and i: "bs_contains bars symbol" and b: "bs_getitem bars symbol = Inr bs" and n: "bs \<noteq> []"
  have r: "for_each format_bar result bs
             = Inr (foldl (\<lambda>text x. text
                     @ ''Date: '' @ bar_date x
                     @ '', Open: $'' @ format_2f (bar_open x)
                     @ '', High: $'' @ format_2f (bar_high x)
                     @ '', Low: $'' @ format_2f (bar_low x)
                     @ '', Close: $'' @ format_2f (bar_close x)
                     @ '', Volume: '' @ bar_volume x @ ''\<newline>'')
               (result)
               bs)" for result
    by (rule for_each_texts) (simp add: format_bar_def bar_line_def money_def)
  from n obtain b' bs' where l: "bs = b' # bs'" by (cases bs) auto
  from c m a i b have "fst (get_stock_bars_body w n symbol k s days)
        = for_each format_bar (bars_header symbol days) bs"
    unfolding l
    by (simp add: get_stock_bars_body_def Let_def del: for_each.simps)
  then show "fst (get_stock_bars g w n symbol k s days)
        = Inr (foldl (\<lambda>text x. text
                     @ ''Date: '' @ bar_date x
                     @ '', Open: $'' @ format_2f (bar_open x)
                     @ '', High: $'' @ format_2f (bar_high x)
                     @ '', Low: $'' @ format_2f (bar_low x)
                     @ '', Close: $'' @ format_2f (bar_close x)
                     @ '', Volume: '' @ bar_volume x @ ''\<newline>'')
               (''Historical Data for '' @ symbol @ '' (Last '' @ str_int days
                @ '' trading days):\<newline>''
                @ ''---------------------------------------------------\<newline>'')
               bs)"
    by (simp add: get_stock_bars_def except_Exception_def r bars_header_def)
qed

lemma get_orders_text:
  "new_TradingClient w k s p = Inr tc
   \<and> tc_get_orders tc
          \<lparr>req_status = (if lower status = ''open'' then Status_OPEN
                         else if lower status = ''closed'' then Status_CLOSED
                         else Status_ALL),
          req_limit = limit\<rparr> = Inr os
   \<and> os \<noteq> []
   \<and> first_error (map (py_float (float_of_str w)) (concat (map order_amounts os))) = None
   \<longrightarrow> fst (get_orders g w n k s p status limit)
        = Inr (foldl (\<lambda>text x. text
                     @ ''\<newline>Symbol: '' @ ord_symbol x @ ''\<newline>''
                     @ ''ID: '' @ ord_id x @ ''\<newline>''
                     @ ''Type: '' @ ord_type x @ ''\<newline>''
                     @ ''Side: '' @ ord_side x @ ''\<newline>''
                     @ ''Quantity: '' @ ord_qty x @ ''\<newline>''
                     @ ''Status: '' @ ord_status x @ ''\<newline>''
                     @ ''Submitted At: '' @ ord_submitted_at x @ ''\<newline>''
                     @ (case filled_at x of
                         Present (Some time) \<Rightarrow> ''Filled At: '' @ time @ ''\<newline>''
                       | _ \<Rightarrow> '''')
                     @ (case filled_avg_price x of
                         Present v \<Rightarrow>
                           if truthy v
                           then ''Filled Price: $'' @ format_2f (amount (float_of_str w) v) @ ''\<newline>''
                           else ''''
                       | Absent \<Rightarrow> '''')
                     @ ''-----------------------------------\<newline>'')
               (str_capitalize w status @ '' Orders (Last '' @ str_nat (length os) @ ''):\<newline>''
                @ ''-----------------------------------\<newline>'')
               os)"
proof (intro impI, elim conjE)
  assume c: "new_TradingClient w k s p = Inr tc"
    and a: "tc_get_orders tc
              \<lparr>req_status = (if lower status = ''open'' then Status_OPEN
                             else if lower status = ''closed'' then Status_CLOSED
                             else Status_ALL),
              req_limit = limit\<rparr> = Inr os"
    and n: "os \<noteq> []"
    and f: "first_error (map (py_float (float_of_str w)) (concat (map order_amounts os))) = None"
  have r: "for_each (format_order (float_of_str w)) result os
             = Inr (foldl (\<lambda>text x. text
                     @ ''\<newline>Symbol: '' @ ord_symbol x @ ''\<newline>''
                     @ ''ID: '' @ ord_id x @ ''\<newline>''
                     @ ''Type: '' @ ord_type x @ ''\<newline>''
                     @ ''Side: '' @ ord_side x @ ''\<newline>''
                     @ ''Quantity: '' @ ord_qty x @ ''\<newline>''
                     @ ''Status: '' @ ord_status x @ ''\<newline>''
                     @ ''Submitted At: '' @ ord_submitted_at x @ ''\<newline>''
                     @ (case filled_at x of
                         Present (Some time) \<Rightarrow> ''Filled At: '' @ time @ ''\<newline>''
                       | _ \<Rightarrow> '''')
                     @ (case filled_avg_price x of
                         Present v \<Rightarrow>
                           if truthy v
                           then ''Filled Price: $'' @ format_2f (amount (float_of_str w) v) @ ''\<newline>''
                           else ''''
                       | Absent \<Rightarrow> '''')
                     @ ''-----------------------------------\<newline>'')
               (result)
               os)" for result
    by (rule for_each_texts) (simp add: format_order_returns first_error_concat [OF f])
  from c a n show "fst (get_orders g w n k s p status limit)
        = Inr (foldl (\<lambda>text x. text
                     @ ''\<newline>Symbol: '' @ ord_symbol x @ ''\<newline>''
                     @ ''ID: '' @ ord_id x @ ''\<newline>''
                     @ ''Type: '' @ ord_type x @ ''\<newline>''
                     @ ''Side: '' @ ord_side x @ ''\<newline>''
                     @ ''Quantity: '' @ ord_qty x @ ''\<newline>''
                     @ ''Status: '' @ ord_status x @ ''\<newline>''
                     @ ''Submitted At: '' @ ord_submitted_at x @ ''\<newline>''
                     @ (case filled_at x of
                         Present (Some time) \<Rightarrow> ''Filled At: '' @ time @ ''\<newline>''
                       | _ \<Rightarrow> '''')
                     @ (case filled_avg_price x of
                         Present v \<Rightarrow>
                           if truthy v
                           then ''Filled Price: $'' @ format_2f (amount (float_of_str w) v) @ ''\<newline>''
                           else ''''
                       | Absent \<Rightarrow> '''')
                     @ ''-----------------------------------\<newline>'')
               (str_capitalize w status @ '' Orders (Last '' @ str_nat (length os) @ ''):\<newline>''
                @ ''-----------------------------------\<newline>'')
               os)"
    by (simp add: get_orders_def get_orders_body_def except_Exception_def Let_def r
        orders_header_def)
qed

lemma place_limit_order_text:
  "new_TradingClient w k s p = Inr tc
   \<and> (lower side = ''buy'' \<or> lower side = ''sell'')
   \<and> tc_submit_order tc
          (LimitOrderRequest symbol quantity (if lower side = ''buy'' then BUY else SELL) DAY price) = Inr ord
   \<and> py_float (float_of_str w) (limit_price ord) = Inr lp
   \<longrightarrow> fst (place_limit_order g w n symbol side quantity price k s p)
        = Inr (''\<newline>Limit Order Placed Successfully:\<newline>-------------------------------\<newline>''
             @ ''Order ID: '' @ ord_id ord @ ''\<newline>''
             @ ''Symbol: '' @ ord_symbol ord @ ''\<newline>''
             @ ''Side: '' @ ord_side ord @ ''\<newline>''
             @ ''Quantity: '' @ ord_qty ord @ ''\<newline>''
             @ ''Type: '' @ ord_type ord @ ''\<newline>''
             @ ''Limit Price: $'' @ format_2f lp @ ''\<newline>''
             @ ''Time In Force: '' @ ord_time_in_force ord @ ''\<newline>''
             @ ''Status: '' @ ord_status ord @ ''\<newline>'')"
  by (auto simp: place_limit_order_def place_limit_order_body_def except_Exception_def
      format_limit_order_def and_then_def money_def)
text \<open>
  Claim C5, as amended. The format \<open>.2f\<close> writes a finite float with exactly two
  decimal places, whatever its precision: the digits read, in hundredths, as the
  natural number nearest to a hundred times the magnitude of the exact value, the even
  one of the two when the value lies half way (and there is only one such number),
  with a minus sign exactly when the value is negative; the negative zero is
  \<open>-0.00\<close>. So 100 is \<open>$100.00\<close>, 12.3456 is \<open>$12.35\<close>, 0.005 is \<open>$0.01\<close> and 0.375 is
  \<open>$0.38\<close>. A float that is not finite is written \<open>inf\<close>, \<open>-inf\<close> or \<open>nan\<close>. Every
  amount and every percentage of a text goes through this format: the five figures of
  each position, the percentage being the format of the rate times 100, the six of the
  account, the two prices of a quote, the four of each bar, the average price of each
  filled order and the limit price of a limit order; the texts are given in full.
\<close>

theorem two_decimal_places:
  "(is_finite f \<longrightarrow> two_decimals (format_2f f))
   \<and> (new_TradingClient w k s p = Inr tc
         \<and> tc_get_all_positions tc = Inr ps
         \<and> ps \<noteq> []
         \<and> first_error (map (py_float (float_of_str w)) (concat (map position_amounts ps))) = None
         \<longrightarrow> fst (get_positions g w n k s p)
           = Inr (foldl (\<lambda>text x. text
                        @ ''\<newline>Symbol: '' @ pos_symbol x @ ''\<newline>''
                        @ ''Quantity: '' @ pos_qty x @ '' shares\<newline>''
                        @ ''Market Value: $'' @ format_2f (amount (float_of_str w) (market_value x)) @ ''\<newline>''
                        @ ''Average Entry Price: $'' @ format_2f (amount (float_of_str w) (avg_entry_price x)) @ ''\<newline>''
                        @ ''Current Price: $'' @ format_2f (amount (float_of_str w) (current_price x)) @ ''\<newline>''
                        @ ''Unrealized P/L: $'' @ format_2f (amount (float_of_str w) (unrealized_pl x))
                        @ '' ('' @ format_2f (times_100 (amount (float_of_str w) (unrealized_plpc x))) @ ''%)\<newline>''
                        @ ''-------------------\<newline>'')
                  (''Current Positions:\<newline>-------------------\<newline>'')
                  ps))
   \<and> (new_TradingClient w k s p = Inr tc
         \<and> tc_get_account tc = Inr a
         \<and> first_error (map (py_float (float_of_str w)) (account_amounts a)) = None
         \<longrightarrow> fst (get_account_info g w n k s p)
           = Inr (''\<newline>Account Information:\<newline>-------------------\<newline>''
                @ ''Account ID: '' @ acc_id a @ ''\<newline>''
                @ ''Status: '' @ acc_status a @ ''\<newline>''
                @ ''Currency: '' @ acc_currency a @ ''\<newline>''
                @ ''Buying Power: $'' @ format_2f (amount (float_of_str w) (buying_power a)) @ ''\<newline>''
                @ ''Cash: $'' @ format_2f (amount (float_of_str w) (cash a)) @ ''\<newline>''
                @ ''Portfolio Value: $'' @ format_2f (amount (float_of_str w) (portfolio_value a)) @ ''\<newline>''
                @ ''Equity: $'' @ format_2f (amount (float_of_str w) (equity a)) @ ''\<newline>''
                @ ''Long Market Value: $'' @ format_2f (amount (float_of_str w) (long_market_value a)) @ ''\<newline>''
                @ ''Short Market Value: $'' @ format_2f (amount (float_of_str w) (short_market_value a)) @ ''\<newline>''
                @ ''Pattern Day Trader: '' @ (if pattern_day_trader a then ''Yes'' else ''No'') @ ''\<newline>''
                @ ''Day Trades Remaining: ''
                @ (case daytrade_count a of Present d \<Rightarrow> d | Absent \<Rightarrow> ''Unknown'')
                @ ''\<newline>''))
   \<and> (nearest_ties_even (\<bar>y\<bar> * 100) (digits_value (filter is_digit (format_2f (Fin y)))))
   \<and> ((hd (format_2f (Fin y)) = CHR ''-'') = (y < 0))
   \<and> (nearest_ties_even z m \<and> nearest_ties_even z m' \<longrightarrow> m = m')
   \<and> (format_2f NegZero = ''-0.00'')
   \<and> (money (Fin 100) = ''$100.00'')
   \<and> (money (Fin (6949954944958149 / 562949953421312)) = ''$12.35'')
   \<and> (money (Fin (5764607523034235 / 1152921504606846976)) = ''$0.01'')
   \<and> (money (Fin (3 / 8)) = ''$0.38'')
   \<and> (\<not> is_finite f \<longrightarrow> format_2f f \<in> {''inf'', ''-inf'', ''nan''})
   \<and> (new_StockHistoricalDataClient w k s = Inr sc
         \<and> sc_get_stock_latest_quote sc symbol = Inr quotes
         \<and> quotes symbol = Some qu
         \<longrightarrow> fst (get_stock_quote g w n symbol k s)
           = Inr (''\<newline>Latest Quote for '' @ symbol @ '':\<newline>------------------------\<newline>''
                @ ''Ask Price: $'' @ format_2f (ask_price qu) @ ''\<newline>''
                @ ''Bid Price: $'' @ format_2f (bid_price qu) @ ''\<newline>''
                @ ''Ask Size: '' @ ask_size qu @ ''\<newline>''
                @ ''Bid Size: '' @ bid_size qu @ ''\<newline>''
                @ ''Timestamp: '' @ quote_timestamp qu @ ''\<newline>''))
   \<and> (new_StockHistoricalDataClient w k s = Inr sc
         \<and> minus_days (now w) days = Inr t
         \<and> sc_get_stock_bars sc
             \<lparr>symbol_or_symbols = symbol, timeframe = Day, start = Some t,
             end_time = None\<rparr> = Inr bars
         \<and> bs_contains bars symbol
         \<and> bs_getitem bars symbol = Inr bs
         \<and> bs \<noteq> []
         \<longrightarrow> fst (get_stock_bars g w n symbol k s days)
           = Inr (foldl (\<lambda>text x. text
                        @ ''Date: '' @ bar_date x
                        @ '', Open: $'' @ format_2f (bar_open x)
                        @ '', High: $'' @ format_2f (bar_high x)
                        @ '', Low: $'' @ format_2f (bar_low x)
                        @ '', Close: $'' @ format_2f (bar_close x)
                        @ '', Volume: '' @ bar_volume x @ ''\<newline>'')
                  (''Historical Data for '' @ symbol @ '' (Last '' @ str_int days
                   @ '' trading days):\<newline>''
                   @ ''---------------------------------------------------\<newline>'')
                  bs))
   \<and> (new_TradingClient w k s p = Inr tc
         \<and> tc_get_orders tc
             \<lparr>req_status = (if lower status = ''open'' then Status_OPEN
                            else if lower status = ''closed'' then Status_CLOSED
                            else Status_ALL),
             req_limit = limit\<rparr> = Inr os
         \<and> os \<noteq> []
         \<and> first_error (map (py_float (float_of_str w)) (concat (map order_amounts os))) = None
         \<longrightarrow> fst (get_orders g w n k s p status limit)
           = Inr (foldl (\<lambda>text x. text
                        @ ''\<newline>Symbol: '' @ ord_symbol x @ ''\<newline>''
                        @ ''ID: '' @ ord_id x @ ''\<newline>''
                        @ ''Type: '' @ ord_type x @ ''\<newline>''
                        @ ''Side: '' @ ord_side x @ ''\<newline>''
                        @ ''Quantity: '' @ ord_qty x @ ''\<newline>''
                        @ ''Status: '' @ ord_status x @ ''\<newline>''
                        @ ''Submitted At: '' @ ord_submitted_at x @ ''\<newline>''
                        @ (case filled_at x of
                            Present (Some time) \<Rightarrow> ''Filled At: '' @ time @ ''\<newline>''
                          | _ \<Rightarrow> '''')
                        @ (case filled_avg_price x of
                            Present v \<Rightarrow>
                              if truthy v
                              then ''Filled Price: $'' @ format_2f (amount (float_of_str w) v) @ ''\<newline>''
                              else ''''
                          | Absent \<Rightarrow> '''')
                        @ ''-----------------------------------\<newline>'')
                  (str_capitalize w status @ '' Orders (Last '' @ str_nat (length os) @ ''):\<newline>''
                   @ ''-----------------------------------\<newline>'')
                  os))
   \<and> (new_TradingClient w k s p = Inr tc
         \<and> (lower side = ''buy'' \<or> lower side = ''sell'')
         \<and> tc_submit_order tc
             (LimitOrderRequest symbol quantity (if lower side = ''buy'' then BUY else SELL) DAY price) = Inr ord
         \<and> py_float (float_of_str w) (limit_price ord) = Inr lp
         \<longrightarrow> fst (place_limit_order g w n symbol side quantity price k s p)
           = Inr (''\<newline>Limit Order Placed Successfully:\<newline>-------------------------------\<newline>''
                @ ''Order ID: '' @ ord_id ord @ ''\<newline>''
                @ ''Symbol: '' @ ord_symbol ord @ ''\<newline>''
                @ ''Side: '' @ ord_side ord @ ''\<newline>''
                @ ''Quantity: '' @ ord_qty ord @ ''\<newline>''
                @ ''Type: '' @ ord_type ord @ ''\<newline>''
                @ ''Limit Price: $'' @ format_2f lp @ ''\<newline>''
                @ ''Time In Force: '' @ ord_time_in_force ord @ ''\<newline>''
                @ ''Status: '' @ ord_status ord @ ''\<newline>''))"
  by (intro conjI format_2f_two_decimals get_positions_text get_account_info_text format_2f_nearest
      format_2f_sign nearest_ties_even_determines format_2f_NegZero money_100 money_12_3456
      money_0_005 money_0_375 format_2f_not_finite get_stock_quote_text get_stock_bars_text
      get_orders_text place_limit_order_text)

lemma times_100_zero: "times_100 (Fin 0) = Fin 0"
  by (simp add: to_double_def)

lemma format_2f_zero: "format_2f (Fin 0) = ''0.00''"
  by (simp add: round_half_even_def hundredths_zero)

theorem two_decimal_places_witness:
  "is_finite (Fin 100) \<and> two_decimals ''100.00''
   \<and> new_TradingClient demo_env ''PK2'' ''S2'' True = Inr failing_client
   \<and> tc_get_all_positions failing_client = Inr [demo_position]
   \<and> first_error (map (py_float (float_of_str demo_env))
                     (concat (map position_amounts [demo_position]))) = None
   \<and> fst (get_positions demo_globals demo_env 2 ''PK2'' ''S2'' True)
       = Inr (''Current Positions:\<newline>-------------------\<newline>''
              @ ''\<newline>Symbol: AAPL\<newline>Quantity: 10 shares\<newline>''
              @ ''Market Value: $150.12\<newline>Average Entry Price: $100.00\<newline>''
              @ ''Current Price: $150.12\<newline>Unrealized P/L: $-1.25 (0.00%)\<newline>''
              @ ''-------------------\<newline>'')"
proof -
  have i: "is_finite (Fin 100)" by simp
  note a = two_decimal_places [where f = "Fin 100", THEN conjunct1, rule_format, OF i,
      unfolded format_2f_100]
  have c: "new_TradingClient demo_env ''PK2'' ''S2'' True = Inr failing_client"
    by (rule demo_new_trading_client)
  have p: "tc_get_all_positions failing_client = Inr [demo_position]"
    by (simp add: failing_client_def)
  have n: "[demo_position] \<noteq> []" by simp
  have f: "first_error (map (py_float (float_of_str demo_env))
                          (concat (map position_amounts [demo_position]))) = None"
    by (simp add: position_amounts_def demo_position_def)
  note t = two_decimal_places [where g = demo_globals and n = 2, THEN conjunct2, THEN conjunct1,
      rule_format, OF conjI [OF c conjI [OF p conjI [OF n f]]]]
  have v: "pos_symbol demo_position = ''AAPL''" "pos_qty demo_position = ''10''"
    "amount (float_of_str demo_env) (market_value demo_position) = Fin (1201 / 8)"
    "amount (float_of_str demo_env) (avg_entry_price demo_position) = Fin 100"
    "amount (float_of_str demo_env) (current_price demo_position) = Fin (1201 / 8)"
    "amount (float_of_str demo_env) (unrealized_pl demo_position) = Fin (- 5 / 4)"
    "amount (float_of_str demo_env) (unrealized_plpc demo_position) = Fin 0"
    by (simp_all add: demo_position_def amount_def)
  have "fst (get_positions demo_globals demo_env 2 ''PK2'' ''S2'' True)
       = Inr (''Current Positions:\<newline>-------------------\<newline>''
              @ ''\<newline>Symbol: AAPL\<newline>Quantity: 10 shares\<newline>''
              @ ''Market Value: $150.12\<newline>Average Entry Price: $100.00\<newline>''
              @ ''Current Price: $150.12\<newline>Unrealized P/L: $-1.25 (0.00%)\<newline>''
              @ ''-------------------\<newline>'')"
    by (simp only: t foldl.simps v times_100_zero format_2f_100 format_2f_150_125
        format_2f_minus_1_25 format_2f_zero) simp
  with i a c p f show ?thesis by (simp only: simp_thms)
qed

text \<open>
  The claim as it was stated fails for a float that is not finite: a quote whose ask
  price is the infinity is rendered with \<open>$inf\<close>, which has no decimal places.
\<close>

lemma demo_new_stock_client:
  "new_StockHistoricalDataClient demo_env ''PK1'' ''S1'' = Inr demo_stock_client"
  by (simp add: demo_env_def)

theorem two_decimal_places_counterexample:
  "fst (get_stock_quote demo_globals demo_env 2 ''INF'' ''PK1'' ''S1'')
     = Inr (''\<newline>Latest Quote for INF:\<newline>------------------------\<newline>''
       @ ''Ask Price: $inf\<newline>Bid Price: $150.10\<newline>''
       @ ''Ask Size: 3\<newline>Bid Size: 5\<newline>Timestamp: 2024-01-10 14:30:00\<newline>'')
   \<and> \<not> two_decimals (format_2f PosInf)"
proof -
  have n: "\<not> two_decimals (format_2f PosInf)"
    by (simp add: two_decimals_def is_digit_def)
  have e: "fst (get_stock_quote demo_globals demo_env 2 ''INF'' ''PK1'' ''S1'')
     = Inr (''\<newline>Latest Quote for INF:\<newline>------------------------\<newline>''
       @ ''Ask Price: $'' @ format_2f PosInf @ ''\<newline>Bid Price: $''
       @ format_2f (Fin (5281174250533683 / 35184372088832)) @ ''\<newline>''
       @ ''Ask Size: 3\<newline>Bid Size: 5\<newline>Timestamp: 2024-01-10 14:30:00\<newline>'')"
    by (simp add: get_stock_quote_def get_stock_quote_body_def except_Exception_def
        demo_new_stock_client demo_stock_client_def demo_quote_def format_quote_def money_def
        del: format_2f.simps)
  have "fst (get_stock_quote demo_globals demo_env 2 ''INF'' ''PK1'' ''S1'')
     = Inr (''\<newline>Latest Quote for INF:\<newline>------------------------\<newline>''
       @ ''Ask Price: $inf\<newline>Bid Price: $150.10\<newline>''
       @ ''Ask Size: 3\<newline>Bid Size: 5\<newline>Timestamp: 2024-01-10 14:30:00\<newline>'')"
    unfolding e format_2f_150_1 format_2f.simps(3) by simp
  with n show ?thesis by (simp only: simp_thms)
qed

subsection \<open>Quotes\<close>

text \<open>
  Claim C7, as amended. With the client built and the answer of the backend at hand,
  when the answer holds the symbol \<open>get_stock_quote\<close> returns the quote block, in which
  the ask and the bid price are written by the format \<open>.2f\<close>. A finite price is written
  with two decimal places, its digits the number of hundredths nearest to the price,
  the even one when the price lies half way: 150.125 is written \<open>150.12\<close> and 150.10 is
  written \<open>150.10\<close>. A price that is not finite is written \<open>inf\<close>, \<open>-inf\<close> or \<open>nan\<close>.
  When the answer does not hold the symbol, the result is
  \<open>No quote data found for <symbol>.\<close>
\<close>

theorem get_stock_quote_renders:
  assumes "new_StockHistoricalDataClient w api_key api_secret = Inr client"
    and "sc_get_stock_latest_quote client symbol = Inr quotes"
  shows "(\<forall>q. quotes symbol = Some q
            \<longrightarrow> get_stock_quote g w n symbol api_key api_secret
                = (Inr (''\<newline>Latest Quote for '' @ symbol
                        @ '':\<newline>------------------------\<newline>''
                        @ ''Ask Price: $'' @ format_2f (ask_price q) @ ''\<newline>''
                        @ ''Bid Price: $'' @ format_2f (bid_price q) @ ''\<newline>''
                        @ ''Ask Size: '' @ ask_size q @ ''\<newline>''
                        @ ''Bid Size: '' @ bid_size q @ ''\<newline>''
                        @ ''Timestamp: '' @ quote_timestamp q @ ''\<newline>''),
                   [New_StockHistoricalDataClient n api_key api_secret,
                    On n (Get_stock_latest_quote symbol)]))
       \<and> (quotes symbol = None
            \<longrightarrow> get_stock_quote g w n symbol api_key api_secret
                = (Inr (''No quote data found for '' @ symbol @ ''.''),
                   [New_StockHistoricalDataClient n api_key api_secret,
                    On n (Get_stock_latest_quote symbol)]))
       \<and> (\<forall>x. two_decimals (format_2f (Fin x))
                \<and> nearest_ties_even (\<bar>x\<bar> * 100)
                     (digits_value (filter is_digit (format_2f (Fin x))))
                \<and> (hd (format_2f (Fin x)) = CHR ''-'') = (x < 0))
       \<and> format_2f (Fin (1201 / 8)) = ''150.12''
       \<and> format_2f (Fin (5281174250533683 / 35184372088832)) = ''150.10''
       \<and> format_2f NegZero = ''-0.00''
       \<and> format_2f PosInf = ''inf'' \<and> format_2f NegInf = ''-inf'' \<and> format_2f NaN = ''nan''"
proof (intro conjI allI impI)
  fix q assume "quotes symbol = Some q"
  with assms show "get_stock_quote g w n symbol api_key api_secret
                = (Inr (''\<newline>Latest Quote for '' @ symbol
                        @ '':\<newline>------------------------\<newline>''
                        @ ''Ask Price: $'' @ format_2f (ask_price q) @ ''\<newline>''
                        @ ''Bid Price: $'' @ format_2f (bid_price q) @ ''\<newline>''
                        @ ''Ask Size: '' @ ask_size q @ ''\<newline>''
                        @ ''Bid Size: '' @ bid_size q @ ''\<newline>''
                        @ ''Timestamp: '' @ quote_timestamp q @ ''\<newline>''),
                   [New_StockHistoricalDataClient n api_key api_secret,
                    On n (Get_stock_latest_quote symbol)])"
    by (simp add: get_stock_quote_def get_stock_quote_body_def except_Exception_def
        format_quote_def money_def)
next
  assume "quotes symbol = None"
  with assms show "get_stock_quote g w n symbol api_key api_secret
                = (Inr (''No quote data found for '' @ symbol @ ''.''),
                   [New_StockHistoricalDataClient n api_key api_secret,
                    On n (Get_stock_latest_quote symbol)])"
    by (simp add: get_stock_quote_def get_stock_quote_body_def except_Exception_def)
next
  fix x :: rat
  show "two_decimals (format_2f (Fin x))"
    using format_2f_two_decimals [of "Fin x"] by simp
  show "nearest_ties_even (\<bar>x\<bar> * 100) (digits_value (filter is_digit (format_2f (Fin x))))"
    by (rule format_2f_nearest)
  show "(hd (format_2f (Fin x)) = CHR ''-'') = (x < 0)"
    by (rule format_2f_sign)
next
  show "format_2f (Fin (1201 / 8)) = ''150.12''" by (rule format_2f_150_125)
  show "format_2f (Fin (5281174250533683 / 35184372088832)) = ''150.10''"
    by (rule format_2f_150_1)
qed simp_all

lemma demo_quotes:
  "sc_get_stock_latest_quote demo_stock_client ''AAPL'' = Inr [''AAPL'' \<mapsto> demo_quote]"
  "sc_get_stock_latest_quote demo_stock_client ''MSFT'' = Inr [''AAPL'' \<mapsto> demo_quote]"
  "sc_get_stock_latest_quote demo_stock_client ''NAN''
     = Inr [''NAN'' \<mapsto> demo_quote\<lparr>bid_price := NaN\<rparr>]"
  by (simp_all add: demo_stock_client_def)

theorem get_stock_quote_renders_witness:
  "new_StockHistoricalDataClient demo_env ''PK1'' ''S1'' = Inr demo_stock_client
   \<and> sc_get_stock_latest_quote demo_stock_client ''AAPL'' = Inr [''AAPL'' \<mapsto> demo_quote]
   \<and> fst (get_stock_quote demo_globals demo_env 2 ''AAPL'' ''PK1'' ''S1'')
       = Inr (''\<newline>Latest Quote for AAPL:\<newline>------------------------\<newline>''
         @ ''Ask Price: $150.12\<newline>Bid Price: $150.10\<newline>''
         @ ''Ask Size: 3\<newline>Bid Size: 5\<newline>Timestamp: 2024-01-10 14:30:00\<newline>'')
   \<and> sc_get_stock_latest_quote demo_stock_client ''MSFT'' = Inr [''AAPL'' \<mapsto> demo_quote]
   \<and> get_stock_quote demo_globals demo_env 2 ''MSFT'' ''PK1'' ''S1''
       = (Inr ''No quote data found for MSFT.'',
          [New_StockHistoricalDataClient 2 ''PK1'' ''S1'', On 2 (Get_stock_latest_quote ''MSFT'')])"
proof -
  note c = demo_new_stock_client
  note a = demo_quotes(1)
  note m = demo_quotes(2)
  have qa: "[''AAPL'' \<mapsto> demo_quote] ''AAPL'' = Some demo_quote" by simp
  have qm: "[''AAPL'' \<mapsto> demo_quote] ''MSFT'' = None" by simp
  note ta = get_stock_quote_renders [OF c a, of demo_globals 2, THEN conjunct1, rule_format,
      OF qa]
  note tm = get_stock_quote_renders [OF c m, of demo_globals 2, THEN conjunct2, THEN conjunct1,
      rule_format, OF qm]
  have v: "ask_price demo_quote = Fin (1201 / 8)"
    "bid_price demo_quote = Fin (5281174250533683 / 35184372088832)"
    "ask_size demo_quote = ''3''" "bid_size demo_quote = ''5''"
    "quote_timestamp demo_quote = ''2024-01-10 14:30:00''"
    by (simp_all add: demo_quote_def)
  have "fst (get_stock_quote demo_globals demo_env 2 ''AAPL'' ''PK1'' ''S1'')
       = Inr (''\<newline>Latest Quote for AAPL:\<newline>------------------------\<newline>''
         @ ''Ask Price: $150.12\<newline>Bid Price: $150.10\<newline>''
         @ ''Ask Size: 3\<newline>Bid Size: 5\<newline>Timestamp: 2024-01-10 14:30:00\<newline>'')"
    by (simp only: ta v format_2f_150_125 format_2f_150_1) simp
  moreover have "get_stock_quote demo_globals demo_env 2 ''MSFT'' ''PK1'' ''S1''
       = (Inr ''No quote data found for MSFT.'',
          [New_StockHistoricalDataClient 2 ''PK1'' ''S1'', On 2 (Get_stock_latest_quote ''MSFT'')])"
    using tm by simp
  ultimately show ?thesis
    using c a m by (simp only: simp_thms)
qed

text \<open>
  The claim as it was stated fails for a price that is not a finite number: the answer
  holds the symbol \<open>NAN\<close>, whose bid price is not a number, and the bid is rendered
  as \<open>$nan\<close>, which is no number rounded to two decimals.
\<close>

theorem get_stock_quote_renders_counterexample:
  "sc_get_stock_latest_quote demo_stock_client ''NAN''
     = Inr [''NAN'' \<mapsto> demo_quote\<lparr>bid_price := NaN\<rparr>]
   \<and> fst (get_stock_quote demo_globals demo_env 2 ''NAN'' ''PK1'' ''S1'')
       = Inr (''\<newline>Latest Quote for NAN:\<newline>------------------------\<newline>''
         @ ''Ask Price: $150.12\<newline>Bid Price: $nan\<newline>''
         @ ''Ask Size: 3\<newline>Bid Size: 5\<newline>Timestamp: 2024-01-10 14:30:00\<newline>'')
   \<and> \<not> two_decimals (format_2f NaN)"
proof -
  have n: "\<not> two_decimals (format_2f NaN)"
    by (simp add: two_decimals_def is_digit_def)
  have e: "fst (get_stock_quote demo_globals demo_env 2 ''NAN'' ''PK1'' ''S1'')
     = Inr (''\<newline>Latest Quote for NAN:\<newline>------------------------\<newline>''
       @ ''Ask Price: $'' @ format_2f (Fin (1201 / 8)) @ ''\<newline>Bid Price: $''
       @ format_2f NaN @ ''\<newline>''
       @ ''Ask Size: 3\<newline>Bid Size: 5\<newline>Timestamp: 2024-01-10 14:30:00\<newline>'')"
    by (simp add: get_stock_quote_def get_stock_quote_body_def except_Exception_def
        demo_new_stock_client demo_quotes demo_quote_def format_quote_def money_def
        del: format_2f.simps)
  have "fst (get_stock_quote demo_globals demo_env 2 ''NAN'' ''PK1'' ''S1'')
     = Inr (''\<newline>Latest Quote for NAN:\<newline>------------------------\<newline>''
       @ ''Ask Price: $150.12\<newline>Bid Price: $nan\<newline>''
       @ ''Ask Size: 3\<newline>Bid Size: 5\<newline>Timestamp: 2024-01-10 14:30:00\<newline>'')"
    unfolding e format_2f_150_125 format_2f.simps(5) by simp
  with n demo_quotes(3) show ?thesis by (simp only: simp_thms)
qed

subsection \<open>Bars\<close>

lemma demo_now: "now demo_env = 63840441600000000"
  by (simp add: demo_env_def)

lemma minus_five_days: "minus_days 63840441600000000 5 = Inr 63840009600000000"
  by (simp add: minus_days_def microseconds_per_day_def datetime_max_def)

lemma demo_stock_bars:
  "symbol_or_symbols r \<noteq> ''DICT''
   \<Longrightarrow> sc_get_stock_bars demo_stock_client r
       = Inr (library_BarSet [''AAPL'' \<mapsto> demo_bars, ''MSFT'' \<mapsto> []])"
  "sc_get_stock_bars demo_stock_client
     \<lparr>symbol_or_symbols = ''DICT'', timeframe = tf, start = st, end_time = en\<rparr>
     = Inr (dict_BarSet [''DICT'' \<mapsto> demo_bars])"
  by (simp_all add: demo_stock_client_def)

lemma demo_bar_lines:
  "bar_line (demo_bars ! 0)
     = ''Date: 2024-01-09, Open: $185.00, High: $186.00, Low: $184.00, Close: $185.50, Volume: 1000\<newline>''"
  "bar_line (demo_bars ! 1)
     = ''Date: 2024-01-08, Open: $181.00, High: $182.00, Low: $180.00, Close: $181.50, Volume: 2000\<newline>''"
proof -
  have r: "round_half_even (\<bar>185\<bar> * 100) = 18500" "round_half_even (\<bar>186\<bar> * 100) = 18600"
    "round_half_even (\<bar>184\<bar> * 100) = 18400" "round_half_even (\<bar>371 / 2\<bar> * 100) = 18550"
    "round_half_even (\<bar>181\<bar> * 100) = 18100" "round_half_even (\<bar>182\<bar> * 100) = 18200"
    "round_half_even (\<bar>180\<bar> * 100) = 18000" "round_half_even (\<bar>363 / 2\<bar> * 100) = 18150"
    by (rule round_half_even_unique, simp)+
  show "bar_line (demo_bars ! 0)
     = ''Date: 2024-01-09, Open: $185.00, High: $186.00, Low: $184.00, Close: $185.50, Volume: 1000\<newline>''"
    by (simp only: demo_bars_def nth_Cons_0 bar_line_def money_def format_2f.simps r
        bar.simps) (simp add: eval_str)
  show "bar_line (demo_bars ! 1)
     = ''Date: 2024-01-08, Open: $181.00, High: $182.00, Low: $180.00, Close: $181.50, Volume: 2000\<newline>''"
    by (simp only: demo_bars_def nth_Cons_0 nth_Cons_Suc One_nat_def bar_line_def money_def
        format_2f.simps r bar.simps) (simp add: eval_str)
qed

text \<open>
  Claim C8 at a concrete call. \<open>get_stock_bars\<close> is called for \<open>AAPL\<close> without \<open>days\<close>, at
  2024-01-10 00:00:00. It asks the client it built for the daily bars from 2024-01-05
  00:00:00 on, giving no end. The answer is the \<open>BarSet\<close> of the library and holds two
  bars for \<open>AAPL\<close>, which the subscript returns; but the membership test of the code
  is false on a \<open>BarSet\<close>, and the tool answers that it found no data. On the same bars
  in an answer whose membership test tells what it holds, the tool writes the two
  bars in the order of the answer.
\<close>

theorem get_stock_bars_library_answer:
  "sc_get_stock_bars demo_stock_client
     \<lparr>symbol_or_symbols = ''AAPL'', timeframe = Day, start = Some 63840009600000000,
      end_time = None\<rparr>
     = Inr (library_BarSet [''AAPL'' \<mapsto> demo_bars, ''MSFT'' \<mapsto> []])
   \<and> bs_getitem (library_BarSet [''AAPL'' \<mapsto> demo_bars, ''MSFT'' \<mapsto> []]) ''AAPL''
       = Inr demo_bars
   \<and> length demo_bars = 2
   \<and> call_tool demo_globals demo_env 2 (Get_stock_bars_tool ''AAPL'' ''PK1'' ''S1'' None)
       = (Inr ''No historical data found for AAPL in the last 5 days.'',
          [New_StockHistoricalDataClient 2 ''PK1'' ''S1'',
           On 2 (Get_stock_bars
                  \<lparr>symbol_or_symbols = ''AAPL'', timeframe = Day,
                   start = Some 63840009600000000, end_time = None\<rparr>)])
   \<and> call_tool demo_globals demo_env 2 (Get_stock_bars_tool ''DICT'' ''PK1'' ''S1'' None)
       = (Inr (''Historical Data for DICT (Last 5 trading days):\<newline>''
               @ ''---------------------------------------------------\<newline>''
               @ ''Date: 2024-01-09, Open: $185.00, High: $186.00, Low: $184.00, Close: $185.50, Volume: 1000\<newline>''
               @ ''Date: 2024-01-08, Open: $181.00, High: $182.00, Low: $180.00, Close: $181.50, Volume: 2000\<newline>''),
          [New_StockHistoricalDataClient 2 ''PK1'' ''S1'',
           On 2 (Get_stock_bars
                  \<lparr>symbol_or_symbols = ''DICT'', timeframe = Day,
                   start = Some 63840009600000000, end_time = None\<rparr>)])"
proof -
  have a: "sc_get_stock_bars demo_stock_client
     \<lparr>symbol_or_symbols = ''AAPL'', timeframe = Day, start = Some 63840009600000000,
      end_time = None\<rparr>
     = Inr (library_BarSet [''AAPL'' \<mapsto> demo_bars, ''MSFT'' \<mapsto> []])"
    by (simp add: demo_stock_bars)
  have b: "bs_getitem (library_BarSet [''AAPL'' \<mapsto> demo_bars, ''MSFT'' \<mapsto> []]) ''AAPL''
       = Inr demo_bars"
    by (simp add: library_BarSet_def)
  have l: "length demo_bars = 2"
    by (simp add: demo_bars_def)
  have five: "str_int 5 = ''5''"
    by (simp add: eval_str)
  have c: "call_tool demo_globals demo_env 2 (Get_stock_bars_tool ''AAPL'' ''PK1'' ''S1'' None)
       = (Inr ''No historical data found for AAPL in the last 5 days.'',
          [New_StockHistoricalDataClient 2 ''PK1'' ''S1'',
           On 2 (Get_stock_bars
                  \<lparr>symbol_or_symbols = ''AAPL'', timeframe = Day,
                   start = Some 63840009600000000, end_time = None\<rparr>)])"
    by (simp add: get_stock_bars_def get_stock_bars_body_def except_Exception_def default_def
        demo_new_stock_client demo_now minus_five_days a library_BarSet_def no_bars_def five)
  have s: "demo_bars = [demo_bars ! 0, demo_bars ! 1]"
    by (simp add: demo_bars_def)
  have f: "for_each format_bar result demo_bars
             = Inr (result @ bar_line (demo_bars ! 0) @ bar_line (demo_bars ! 1))" for result
    by (subst s) (simp add: format_bar_def)
  have g: "bs_getitem (dict_BarSet [''DICT'' \<mapsto> demo_bars]) ''DICT'' = Inr demo_bars"
    "bs_contains (dict_BarSet [''DICT'' \<mapsto> demo_bars]) ''DICT''"
    by (simp_all add: dict_BarSet_def)
  have m: "minus_days (now demo_env) 5 = Inr 63840009600000000"
    by (simp only: demo_now minus_five_days)
  have ne: "demo_bars \<noteq> []"
    by (simp add: demo_bars_def)
  have body: "get_stock_bars_body demo_env 2 ''DICT'' ''PK1'' ''S1'' 5
       = (for_each format_bar (bars_header ''DICT'' 5) demo_bars,
          [New_StockHistoricalDataClient 2 ''PK1'' ''S1'',
           On 2 (Get_stock_bars
                  \<lparr>symbol_or_symbols = ''DICT'', timeframe = Day,
                   start = Some 63840009600000000, end_time = None\<rparr>)])"
    by (rule get_stock_bars_body_rendered [OF demo_new_stock_client m demo_stock_bars(2) g(2) g(1)
          ne])
  have e: "call_tool demo_globals demo_env 2 (Get_stock_bars_tool ''DICT'' ''PK1'' ''S1'' None)
       = (Inr (''Historical Data for DICT (Last 5 trading days):\<newline>''
               @ ''---------------------------------------------------\<newline>''
               @ ''Date: 2024-01-09, Open: $185.00, High: $186.00, Low: $184.00, Close: $185.50, Volume: 1000\<newline>''
               @ ''Date: 2024-01-08, Open: $181.00, High: $182.00, Low: $180.00, Close: $181.50, Volume: 2000\<newline>''),
          [New_StockHistoricalDataClient 2 ''PK1'' ''S1'',
           On 2 (Get_stock_bars
                  \<lparr>symbol_or_symbols = ''DICT'', timeframe = Day,
                   start = Some 63840009600000000, end_time = None\<rparr>)])"
    by (simp only: call_tool.simps default_def option.case get_stock_bars_def body f)
      (simp add: except_Exception_def demo_bar_lines demo_bar_lines(2) [unfolded One_nat_def]
        bars_header_def five)
  from a b l c e show ?thesis by (simp only: simp_thms)
qed

subsection \<open>The handles of the module and the handle of a call\<close>

lemmas body_defs =
  get_account_info_body_def get_positions_body_def get_positions_with_def
  get_stock_quote_body_def get_stock_bars_body_def get_orders_body_def
  place_market_order_body_def place_limit_order_body_def cancel_all_orders_body_def
  close_all_positions_body_def

lemma call_tool_trace: "snd (call_tool g w n i) = snd (body w n i)"
  by (simp add: call_tool_handler except_Exception_trace)

lemma body_trace_built:
  "constructs w i
   \<Longrightarrow> snd (body w n i) \<noteq> [] \<and> hd (snd (body w n i)) = construction n i
       \<and> list_all (made_on n) (tl (snd (body w n i)))"
  by (cases i)
    (auto simp: constructs_def body_defs Let_def split: sum.splits option.splits list.splits)

lemma body_trace_other:
  "h \<noteq> n \<Longrightarrow> ev \<in> set (snd (body w n i)) \<Longrightarrow> \<not> made_on h ev"
  by (cases i)
    (auto simp: body_defs Let_def split: sum.splits option.splits list.splits if_splits)

lemma body_same_world:
  "client_of w i = client_of w' i \<Longrightarrow> now w = now w' \<Longrightarrow> float_of_str w = float_of_str w'
   \<Longrightarrow> str_capitalize w = str_capitalize w' \<Longrightarrow> body w n i = body w' n i"
  by (cases i)
    (simp_all add: body_defs orders_header_def Let_def
      cong: sum.case_cong option.case_cong list.case_cong if_cong)

lemma load_module_handles:
  "load_module w getenv = Started g \<Longrightarrow> fst (trading_client g) = 0 \<and> fst (stock_client g) = 1"
  by (auto simp: load_module_def Let_def split: option.splits if_splits sum.splits exn.splits)

text \<open>
  Claim C9. A call of a tool, made when \<open>n\<close> objects exist in the process, leaves
  nothing behind when the constructor raises for the credentials of the call.
  Otherwise the first thing it does is to build the object number \<open>n\<close>, a new one,
  from the key, the secret and the paper flag it was called with, and every call on a
  backend that follows is made on that object: no call is made on any other object,
  in particular none on the two clients of the module, which are the objects 0 and 1.
  The module-level names play no part in the outcome, and two worlds in which the
  constructor answers the same for the credentials of the call (and the clock, the
  parsing of floats and the capitalisation agree) give the same outcome, whatever the
  module-level credentials and clients are.
\<close>

theorem fresh_handle_per_call:
  "(construction_raises w i e \<longrightarrow> snd (call_tool g w n i) = [])
   \<and> (constructs w i
        \<longrightarrow> snd (call_tool g w n i) \<noteq> []
          \<and> hd (snd (call_tool g w n i)) = construction n i
          \<and> list_all (made_on n) (tl (snd (call_tool g w n i))))
   \<and> (h \<noteq> n \<longrightarrow> (\<forall>ev \<in> set (snd (call_tool g w n i)). \<not> made_on h ev))
   \<and> (load_module w getenv = Started g \<and> 2 \<le> n
        \<longrightarrow> fst (trading_client g) = 0 \<and> fst (stock_client g) = 1
          \<and> (\<forall>ev \<in> set (snd (call_tool g w n i)).
                \<not> made_on (fst (trading_client g)) ev \<and> \<not> made_on (fst (stock_client g)) ev))
   \<and> call_tool g w n i = call_tool g' w n i
   \<and> (client_of w i = client_of w' i \<and> now w = now w' \<and> float_of_str w = float_of_str w'
        \<and> str_capitalize w = str_capitalize w'
        \<longrightarrow> call_tool g w n i = call_tool g' w' n i)"
proof (intro conjI impI ballI)
  assume "construction_raises w i e"
  then show "snd (call_tool g w n i) = []"
    by (simp add: call_tool_trace body_construction_raises)
next
  assume c: "constructs w i"
  from body_trace_built [OF c, of n]
  show "snd (call_tool g w n i) \<noteq> []" "hd (snd (call_tool g w n i)) = construction n i"
    "list_all (made_on n) (tl (snd (call_tool g w n i)))"
    by (simp_all add: call_tool_trace)
next
  fix ev assume "h \<noteq> n" and "ev \<in> set (snd (call_tool g w n i))"
  then show "\<not> made_on h ev"
    unfolding call_tool_trace by (rule body_trace_other)
next
  assume l: "load_module w getenv = Started g \<and> 2 \<le> n"
  then show "fst (trading_client g) = 0" "fst (stock_client g) = 1"
    using load_module_handles [of w getenv g] by simp_all
  fix ev assume m: "ev \<in> set (snd (call_tool g w n i))"
  from l have "fst (trading_client g) \<noteq> n" "fst (stock_client g) \<noteq> n"
    using load_module_handles [of w getenv g] by simp_all
  with m show "\<not> made_on (fst (trading_client g)) ev" "\<not> made_on (fst (stock_client g)) ev"
    unfolding call_tool_trace
    using body_trace_other [of "fst (trading_client g)" n ev w i]
      body_trace_other [of "fst (stock_client g)" n ev w i]
    by blast+
next
  show "call_tool g w n i = call_tool g' w n i"
    by (simp only: call_tool_handler)
next
  assume "client_of w i = client_of w' i \<and> now w = now w' \<and> float_of_str w = float_of_str w'
        \<and> str_capitalize w = str_capitalize w'"
  then have "body w n i = body w' n i"
    using body_same_world [of w i w' n] by blast
  then show "call_tool g w n i = call_tool g' w' n i"
    by (simp only: call_tool_handler)
qed

lemma lower_true: "lower ''true'' = ''true''"
  by code_simp

lemma lower_False: "lower ''False'' = ''false''"
  by code_simp

lemma demo_loaded: "load_module demo_env demo_getenv = Started demo_globals"
  by (simp add: load_module_def demo_getenv_def demo_env_def demo_globals_def default_def
      lower_true)

lemma other_loaded: "load_module demo_env other_getenv = Started other_globals"
  by (simp add: load_module_def other_getenv_def demo_env_def other_globals_def default_def
      lower_False)

text \<open>
  The module loaded under a setting of the default credentials whose trading client
  refuses every cancellation. A call with credentials of its own, the third object of
  the process being the next to build, builds that object from its own credentials,
  makes its one call on it and none on the objects 0 and 1, and succeeds; the outcome
  is the one it has under the other setting.
\<close>

theorem fresh_handle_per_call_witness:
  "load_module demo_env other_getenv = Started other_globals \<and> (2::nat) \<le> 2
   \<and> tc_cancel_orders (snd (trading_client other_globals)) = Inl (Exception ''forbidden'')
   \<and> constructs demo_env (Cancel_all_orders ''PK1'' ''S1'' None)
   \<and> call_tool other_globals demo_env 2 (Cancel_all_orders ''PK1'' ''S1'' None)
       = (Inr ''Successfully canceled all open orders. Status: []'',
          [New_TradingClient 2 ''PK1'' ''S1'' True, On 2 Cancel_orders])
   \<and> hd (snd (call_tool other_globals demo_env 2 (Cancel_all_orders ''PK1'' ''S1'' None)))
       = New_TradingClient 2 ''PK1'' ''S1'' True
   \<and> list_all (made_on 2)
        (tl (snd (call_tool other_globals demo_env 2 (Cancel_all_orders ''PK1'' ''S1'' None))))
   \<and> fst (trading_client other_globals) = 0 \<and> fst (stock_client other_globals) = 1
   \<and> \<not> made_on (fst (trading_client other_globals)) (On 2 Cancel_orders)
   \<and> \<not> made_on (fst (stock_client other_globals)) (On 2 Cancel_orders)
   \<and> call_tool other_globals demo_env 2 (Cancel_all_orders ''PK1'' ''S1'' None)
       = call_tool demo_globals demo_env 2 (Cancel_all_orders ''PK1'' ''S1'' None)"
proof -
  have d: "tc_cancel_orders (snd (trading_client other_globals)) = Inl (Exception ''forbidden'')"
    by (simp add: other_globals_def failing_client_def)
  have c: "constructs demo_env (Cancel_all_orders ''PK1'' ''S1'' None)"
    by (simp add: constructs_def demo_new_trading_client)
  have v: "call_tool other_globals demo_env 2 (Cancel_all_orders ''PK1'' ''S1'' None)
       = (Inr ''Successfully canceled all open orders. Status: []'',
          [New_TradingClient 2 ''PK1'' ''S1'' True, On 2 Cancel_orders])"
    by (simp add: cancel_all_orders_def cancel_all_orders_body_def except_Exception_def
        default_def demo_new_trading_client demo_trading_client_def)
  have k: "construction 2 (Cancel_all_orders ''PK1'' ''S1'' None)
             = New_TradingClient 2 ''PK1'' ''S1'' True"
    by (simp add: default_def)
  have m: "On 2 Cancel_orders
             \<in> set (snd (call_tool other_globals demo_env 2 (Cancel_all_orders ''PK1'' ''S1'' None)))"
    by (simp only: v) simp
  note t = fresh_handle_per_call [where g = other_globals and w = demo_env and n = 2
      and i = "Cancel_all_orders ''PK1'' ''S1'' None" and getenv = other_getenv
      and g' = demo_globals]
  note t2 = t [THEN conjunct2, THEN conjunct1, rule_format, OF c, unfolded k]
  have l: "load_module demo_env other_getenv = Started other_globals \<and> (2::nat) \<le> 2"
    by (simp add: other_loaded)
  note t4 = t [THEN conjunct2, THEN conjunct2, THEN conjunct2, THEN conjunct1, rule_format, OF l]
  from t4 m have n: "\<not> made_on (fst (trading_client other_globals)) (On 2 Cancel_orders)"
    "\<not> made_on (fst (stock_client other_globals)) (On 2 Cancel_orders)"
    by blast+
  note t5 = t [THEN conjunct2, THEN conjunct2, THEN conjunct2, THEN conjunct2, THEN conjunct1]
  from l d c v t2 t4 n t5 show ?thesis
    by (simp only: simp_thms)
qed

end
